theory Spec2Isabelle
  imports Complex_Main "HOL-Library.Word" "HOL-Library.Log_Nat" "HOL-Library.AList"
begin

text \<open>
  A shallow embedding of the MiniMax chat provider for VS Code: the message mapper, the
  tool schema normalizer, the response reconstructor and the token count of
  \<open>providers/MiniMaxProvider.ts\<close>, the request driver and error classifier of
  \<open>api/MiniMaxClient.ts\<close>, and \<open>utils/TokenCounter.ts\<close>.
\<close>

section \<open>JavaScript values\<close>

text \<open>
  A JavaScript string is a sequence of UTF-16 code units; \<open>length\<close>, \<open>startsWith\<close>,
  \<open>slice\<close> and \<open>trim\<close> all count code units. \<open>S\<close> writes an ASCII literal.
\<close>

type_synonym code_unit = "16 word"
type_synonym jsstring = "code_unit list"

definition S :: "string \<Rightarrow> jsstring" where
  "S cs = map of_char cs"

text \<open>
  A Number is a finite value or one of the three special values. Doubles are rationals,
  so \<open>Finite\<close> carries a \<open>rat\<close>; only \<open>Number.isInteger\<close> and \<open>\<ge> 0\<close> are ever
  asked of a number by the code below.
\<close>

datatype jsnumber = Finite rat | NaN | PosInfinity | NegInfinity

text \<open>
  Loosely typed payloads (\<open>unknown\<close> in the source) are JSON-like trees. An object is
  the list of its own properties in insertion order.
\<close>

datatype jsval =
    JUndefined
  | JNull
  | JBool bool
  | JNum jsnumber
  | JStr jsstring
  | JArr "jsval list"
  | JObj "(jsstring \<times> jsval) list"

text \<open>
  \<open>v?.k\<close> for the property names the code reads (none of them is \<open>length\<close> or an
  array index): \<open>undefined\<close> unless \<open>v\<close> is an object that has the property.
\<close>

fun get :: "jsval \<Rightarrow> jsstring \<Rightarrow> jsval" where
  "get (JObj kv) k = (case map_of kv k of Some v \<Rightarrow> v | None \<Rightarrow> JUndefined)"
| "get _ k = JUndefined"

text \<open>\<open>k in obj\<close> on an object without inherited property \<open>k\<close>.\<close>

definition has :: "(jsstring \<times> jsval) list \<Rightarrow> jsstring \<Rightarrow> bool" where
  "has kv k = (map_of kv k \<noteq> None)"

text \<open>\<open>obj[k] = v\<close>: an existing property keeps its place, a new one goes last.\<close>

definition set_prop :: "(jsstring \<times> jsval) list \<Rightarrow> jsstring \<Rightarrow> jsval \<Rightarrow> (jsstring \<times> jsval) list" where
  "set_prop kv k v = AList.update k v kv"

text \<open>
  \<open>String.prototype.trim\<close> removes WhiteSpace and LineTerminator code units
  (ECMAScript: TAB, LF, VT, FF, CR, SP, NBSP, the Zs category, LS, PS, ZWNBSP) from both ends.
\<close>

definition isWhiteSpace :: "code_unit \<Rightarrow> bool" where
  "isWhiteSpace c =
     ((0x09 \<le> c \<and> c \<le> 0x0D) \<or> c = 0x20 \<or> c = 0xA0 \<or> c = 0x1680 \<or>
      (0x2000 \<le> c \<and> c \<le> 0x200A) \<or> c = 0x2028 \<or> c = 0x2029 \<or> c = 0x202F \<or>
      c = 0x205F \<or> c = 0x3000 \<or> c = 0xFEFF)"

definition trim :: "jsstring \<Rightarrow> jsstring" where
  "trim s = rev (dropWhile isWhiteSpace (rev (dropWhile isWhiteSpace s)))"

text \<open>
  \<open>String(n)\<close> for a non-negative integer \<open>n\<close>: its decimal digits (ECMAScript
  Number::toString switches to exponent notation only from \<open>10^21\<close> on, beyond any
  character count).
\<close>

function String_of_nat :: "nat \<Rightarrow> jsstring" where
  "String_of_nat n =
     (if n < 10 then [of_nat (48 + n)]
      else String_of_nat (n div 10) @ [of_nat (48 + n mod 10)])"
  by pat_completeness auto
termination
  by (relation "measure id") auto

declare String_of_nat.simps [simp del]

section \<open>Host message parts\<close>

text \<open>
  The elements of a tool result's \<open>content\<close> array, as \<open>concatToolResultContent\<close>
  tells them apart: an instance of \<open>LanguageModelTextPart\<close>, an instance of
  \<open>LanguageModelDataPart\<close> (mime type and bytes), or any other value.
\<close>

datatype result_part =
    ResultText jsstring
  | ResultData jsstring "8 word list"
  | ResultOther jsval

text \<open>
  The elements of a request message's \<open>content\<close> array, by the \<open>instanceof\<close> tests of
  the provider: text, tool call (callId, name, input), tool result (callId, content),
  data, or any other value (a thinking part among them).
\<close>

datatype part =
    TextPart jsstring
  | ToolCallPart jsstring jsstring jsval
  | ToolResultPart jsstring "result_part list"
  | DataPart jsstring "8 word list"
  | OtherPart jsval

section \<open>TokenCounter\<close>

definition charsPerToken :: nat where
  "charsPerToken = 4"

text \<open>\<open>estimateTokens\<close>: 0 for the empty string, else \<open>Math.ceil(text.length / 4)\<close>.\<close>

definition estimateTokens :: "jsstring \<Rightarrow> nat" where
  "estimateTokens text =
     (if text = [] \<or> length text = 0 then 0
      else nat \<lceil>real (length text) / real charsPerToken\<rceil>)"

section \<open>MiniMaxProvider.provideTokenCount\<close>

datatype token_input = StringInput jsstring | MessageInput "part list"

text \<open>The loop over \<open>text.content\<close> that adds up \<open>part.value.length\<close> of the text parts.\<close>

fun totalChars_loop :: "nat \<Rightarrow> part list \<Rightarrow> nat" where
  "totalChars_loop totalChars [] = totalChars"
| "totalChars_loop totalChars (TextPart v # ps) = totalChars_loop (totalChars + length v) ps"
| "totalChars_loop totalChars (_ # ps) = totalChars_loop totalChars ps"

fun provideTokenCount :: "token_input \<Rightarrow> nat" where
  "provideTokenCount (StringInput text) = estimateTokens text"
| "provideTokenCount (MessageInput content) =
     estimateTokens (String_of_nat (totalChars_loop 0 content))"

text \<open>Reference notions for the token count of a message.\<close>

fun text_values :: "part list \<Rightarrow> jsstring list" where
  "text_values [] = []"
| "text_values (TextPart v # ps) = v # text_values ps"
| "text_values (_ # ps) = text_values ps"

definition decimal_digits :: "nat \<Rightarrow> nat" where
  "decimal_digits n = (if n = 0 then 1 else floorlog 10 n)"

section \<open>Runtime functions the provider calls\<close>

text \<open>
  The provider calls into the JavaScript runtime: \<open>JSON.parse\<close> (\<open>None\<close> when it
  throws), \<open>JSON.stringify\<close> (a string or \<open>undefined\<close>; \<open>None\<close> when it throws),
  the string coercion of numbers, arrays and objects (plain data, on which it always
  returns), and the base64 encoding of a byte buffer. They are parameters of the model.
\<close>

record builtins =
  JSON_parse :: "jsstring \<Rightarrow> jsval option"
  JSON_stringify :: "jsval \<Rightarrow> jsval option"
  String_other :: "jsval \<Rightarrow> jsstring"
  base64 :: "8 word list \<Rightarrow> jsstring"

text \<open>\<open>String(v)\<close>, also the coercion of \<open>text += v\<close>.\<close>

fun ToString :: "builtins \<Rightarrow> jsval \<Rightarrow> jsstring" where
  "ToString B (JStr s) = s"
| "ToString B JUndefined = S ''undefined''"
| "ToString B JNull = S ''null''"
| "ToString B (JBool b) = (if b then S ''true'' else S ''false'')"
| "ToString B v = String_other B v"

section \<open>Message mapper (MiniMaxProvider)\<close>

text \<open>The wire messages built for system and user turns (\<open>api/types.ts\<close>).\<close>

datatype MiniMaxMessage =
    SystemMessage jsstring
  | UserMessage jsstring
  | ToolMessage jsstring jsstring

text \<open>\<open>concatTextParts\<close>: \<open>text += part.value\<close> for every text part.\<close>

fun concatTextParts_loop :: "jsstring \<Rightarrow> part list \<Rightarrow> jsstring" where
  "concatTextParts_loop text [] = text"
| "concatTextParts_loop text (TextPart v # ps) = concatTextParts_loop (text @ v) ps"
| "concatTextParts_loop text (_ # ps) = concatTextParts_loop text ps"

definition concatTextParts :: "part list \<Rightarrow> jsstring" where
  "concatTextParts parts = concatTextParts_loop [] parts"

text \<open>\<open>safeJson\<close>: \<open>JSON.stringify(value)\<close>, or \<open>String(value)\<close> when that throws.\<close>

definition safeJson :: "builtins \<Rightarrow> jsval \<Rightarrow> jsval" where
  "safeJson B v = (case JSON_stringify B v of Some r \<Rightarrow> r | None \<Rightarrow> JStr (ToString B v))"

text \<open>
  What one element of a tool result adds to \<open>text\<close> in \<open>concatToolResultContent\<close>: a
  text part its value, a data part \<open>[data:<mime>;base64,<bytes>]\<close>, an object with a
  string \<open>value\<close> property that string, anything else \<open>safeJson\<close> of it.
\<close>

fun renderResultPart :: "builtins \<Rightarrow> result_part \<Rightarrow> jsstring" where
  "renderResultPart B (ResultText v) = v"
| "renderResultPart B (ResultData mimeType bytes) =
     S ''[data:'' @ mimeType @ S '';base64,'' @ base64 B bytes @ S '']''"
| "renderResultPart B (ResultOther v) =
     (case get v (S ''value'') of
        JStr s \<Rightarrow> s
      | _ \<Rightarrow> ToString B (safeJson B v))"

fun concatToolResultContent_loop :: "builtins \<Rightarrow> jsstring \<Rightarrow> result_part list \<Rightarrow> jsstring" where
  "concatToolResultContent_loop B text [] = text"
| "concatToolResultContent_loop B text (p # ps) =
     concatToolResultContent_loop B (text @ renderResultPart B p) ps"

definition concatToolResultContent :: "builtins \<Rightarrow> result_part list \<Rightarrow> jsstring" where
  "concatToolResultContent B parts =
     (let text = concatToolResultContent_loop B [] parts;
          normalized = trim text
      in if length normalized > 0 then normalized else S ''{}'')"

text \<open>\<open>toMiniMaxUserAndToolMessages\<close>, the conversion of a user-role message.\<close>

fun toolMessages_loop :: "builtins \<Rightarrow> MiniMaxMessage list \<Rightarrow> part list \<Rightarrow> MiniMaxMessage list" where
  "toolMessages_loop B toolMessages [] = toolMessages"
| "toolMessages_loop B toolMessages (ToolResultPart callId content # ps) =
     toolMessages_loop B
       (toolMessages @ [ToolMessage callId (concatToolResultContent B content)]) ps"
| "toolMessages_loop B toolMessages (_ # ps) = toolMessages_loop B toolMessages ps"

definition toMiniMaxUserAndToolMessages :: "builtins \<Rightarrow> part list \<Rightarrow> MiniMaxMessage list" where
  "toMiniMaxUserAndToolMessages B parts =
     (let textContent = concatTextParts parts;
          toolMessages = toolMessages_loop B [] parts;
          messages =
            (if length (trim textContent) > 0 \<or> length toolMessages = 0
             then [UserMessage textContent] else [])
      in messages @ toolMessages)"

text \<open>Reference notions: the tool results of a turn, in order, and the kinds of message.\<close>

fun tool_results :: "part list \<Rightarrow> (jsstring \<times> result_part list) list" where
  "tool_results [] = []"
| "tool_results (ToolResultPart callId content # ps) = (callId, content) # tool_results ps"
| "tool_results (_ # ps) = tool_results ps"

fun isToolResultPart :: "part \<Rightarrow> bool" where
  "isToolResultPart (ToolResultPart callId content) = True"
| "isToolResultPart _ = False"

fun isUserMessage :: "MiniMaxMessage \<Rightarrow> bool" where
  "isUserMessage (UserMessage content) = True"
| "isUserMessage _ = False"

fun isToolMessage :: "MiniMaxMessage \<Rightarrow> bool" where
  "isToolMessage (ToolMessage callId content) = True"
| "isToolMessage _ = False"

section \<open>Tool schema normalizer (MiniMaxProvider)\<close>

definition fallback :: jsval where
  "fallback = JObj [(S ''type'', JStr (S ''object'')), (S ''properties'', JObj [])]"

text \<open>
  \<open>normalizeToolParameters\<close>. The first test lets through exactly the truthy values of
  type \<open>object\<close> that are no array; the spread copies the own properties.
\<close>

fun normalizeToolParameters :: "jsval \<Rightarrow> jsval" where
  "normalizeToolParameters (JObj inputSchema) =
     (let schema = inputSchema;
          schema = (if \<not> has schema (S ''type'')
                    then set_prop schema (S ''type'') (JStr (S ''object'')) else schema);
          schema = (if get (JObj schema) (S ''type'') = JStr (S ''object'') \<and>
                       \<not> has schema (S ''properties'')
                    then set_prop schema (S ''properties'') (JObj []) else schema)
      in JObj schema)"
| "normalizeToolParameters _ = fallback"

text \<open>A host tool (\<open>LanguageModelChatTool\<close>) and a wire tool definition.\<close>

record tool =
  name :: "jsstring option"
  description :: "jsstring option"
  inputSchema :: jsval

record tool_function =
  fn_name :: jsstring
  fn_description :: "jsstring option"
  fn_parameters :: jsval

text \<open>\<open>normalizeToolName\<close> and \<open>normalizeToolDescription\<close>: trimmed, absent when empty.\<close>

definition normalizeToolName :: "jsstring option \<Rightarrow> jsstring option" where
  "normalizeToolName n =
     (case n of None \<Rightarrow> None
      | Some s \<Rightarrow> (let trimmed = trim s in if length trimmed > 0 then Some trimmed else None))"

definition normalizeToolDescription :: "jsstring option \<Rightarrow> jsstring option" where
  "normalizeToolDescription d =
     (case d of None \<Rightarrow> None
      | Some s \<Rightarrow> (let trimmed = trim s in if length trimmed > 0 then Some trimmed else None))"

text \<open>
  \<open>convertTools\<close>; every definition has \<open>type: "function"\<close>, so a definition is its
  \<open>function\<close> record.
\<close>

fun convertTools_loop :: "tool_function list \<Rightarrow> tool list \<Rightarrow> tool_function list" where
  "convertTools_loop converted [] = converted"
| "convertTools_loop converted (t # ts) =
     (case normalizeToolName (name t) of
        None \<Rightarrow> convertTools_loop converted ts
      | Some n \<Rightarrow>
          convertTools_loop
            (converted @
              [\<lparr>fn_name = n,
                fn_description = normalizeToolDescription (description t),
                fn_parameters = normalizeToolParameters (inputSchema t)\<rparr>]) ts)"

definition convertTools :: "tool list option \<Rightarrow> tool_function list option" where
  "convertTools tools =
     (case tools of
        None \<Rightarrow> None
      | Some ts \<Rightarrow>
          if length ts = 0 then None
          else (let converted = convertTools_loop [] ts
                in if length converted > 0 then Some converted else None))"

text \<open>Reference notion: the conversion of one named tool.\<close>

definition convertTool :: "tool \<Rightarrow> tool_function" where
  "convertTool t =
     \<lparr>fn_name = (case name t of None \<Rightarrow> [] | Some s \<Rightarrow> trim s),
      fn_description = normalizeToolDescription (description t),
      fn_parameters = normalizeToolParameters (inputSchema t)\<rparr>"

definition named :: "tool \<Rightarrow> bool" where
  "named t = (case name t of None \<Rightarrow> False | Some s \<Rightarrow> length (trim s) > 0)"

section \<open>Response reconstructor (MiniMaxProvider.streamResponse)\<close>

text \<open>
  A choice of a streamed chunk. The provider reads \<open>delta\<close> and \<open>finish_reason\<close>
  through casts to loosely typed shapes, so both are plain values (\<open>undefined\<close> when
  absent). A chunk is its \<open>choices\<close> array.
\<close>

record choice =
  delta :: jsval
  finish_reason :: jsval

record chunk =
  choices :: "choice list"

text \<open>
  The parts reported to the host through \<open>progress.report\<close>. A text part carries
  the value handed to its constructor (a string by the type of the chunk).
\<close>

datatype response_part =
    ResponseText jsval
  | ResponseThinking jsstring "jsstring option" "jsval option"
  | ResponseToolCall jsstring jsstring jsval

record ReasoningUpdate =
  ru_text :: jsstring
  ru_id :: "jsstring option"
  ru_metadata :: "jsval option"

record AccumulatedToolCall =
  tc_index :: nat
  tc_id :: "jsstring option"
  tc_name :: "jsstring option"
  tc_arguments :: jsstring

text \<open>
  The state of one response: the three locals of \<open>streamResponse\<close> and the parts
  reported so far. \<open>pendingToolCalls\<close> is the \<open>Map\<close> in insertion order.
\<close>

record stream_state =
  reasoningBuffer :: jsstring
  pendingToolCalls :: "(nat \<times> AccumulatedToolCall) list"
  toolCallsEmitted :: bool
  progress :: "response_part list"

definition initial_state :: stream_state where
  "initial_state =
     \<lparr>reasoningBuffer = [], pendingToolCalls = [], toolCallsEmitted = False, progress = []\<rparr>"

text \<open>\<open>v && typeof v === "object"\<close>: an object or an array.\<close>

fun isObjectLike :: "jsval \<Rightarrow> bool" where
  "isObjectLike (JObj kv) = True"
| "isObjectLike (JArr xs) = True"
| "isObjectLike _ = False"

definition startsWith :: "jsstring \<Rightarrow> jsstring \<Rightarrow> bool" where
  "startsWith s p = (take (length p) s = p)"

definition readNonEmptyString :: "jsval \<Rightarrow> jsstring option" where
  "readNonEmptyString v =
     (case v of
        JStr s \<Rightarrow> (let normalized = trim s in if length normalized > 0 then Some normalized else None)
      | _ \<Rightarrow> None)"

text \<open>\<open>a ?? b\<close> on optional strings.\<close>

definition orElse :: "'a option \<Rightarrow> 'a option \<Rightarrow> 'a option" where
  "orElse a b = (case a of Some x \<Rightarrow> Some x | None \<Rightarrow> b)"

text \<open>\<open>getLatestReasoningUpdate\<close>: the loop keeps the last entry whose \<open>text\<close> is a string.\<close>

fun getLatestReasoningUpdate_loop :: "ReasoningUpdate option \<Rightarrow> jsval list \<Rightarrow> ReasoningUpdate option" where
  "getLatestReasoningUpdate_loop latest [] = latest"
| "getLatestReasoningUpdate_loop latest (detail # ds) =
     (if \<not> isObjectLike detail then getLatestReasoningUpdate_loop latest ds
      else
        (case get detail (S ''text'') of
           JStr t \<Rightarrow>
             getLatestReasoningUpdate_loop
               (Some \<lparr>ru_text = t,
                      ru_id = orElse (readNonEmptyString (get detail (S ''id'')))
                                (orElse (readNonEmptyString (get detail (S ''reasoning_id'')))
                                        (readNonEmptyString (get detail (S ''thinking_id'')))),
                      ru_metadata = (case get detail (S ''metadata'') of
                                       JObj m \<Rightarrow> Some (JObj m) | _ \<Rightarrow> None)\<rparr>) ds
         | _ \<Rightarrow> getLatestReasoningUpdate_loop latest ds))"

definition getLatestReasoningUpdate :: "choice \<Rightarrow> ReasoningUpdate option" where
  "getLatestReasoningUpdate c =
     (case get (delta c) (S ''reasoning_details'') of
        JArr reasoningDetails \<Rightarrow> getLatestReasoningUpdate_loop None reasoningDetails
      | _ \<Rightarrow> None)"

text \<open>
  \<open>reportReasoning\<close>; \<open>thinkingPartCtor\<close> is whether the host has the
  \<open>LanguageModelThinkingPart\<close> constructor.
\<close>

definition reportReasoning :: "bool \<Rightarrow> jsstring \<Rightarrow> ReasoningUpdate \<Rightarrow> response_part list" where
  "reportReasoning thinkingPartCtor newText reasoning =
     (if \<not> thinkingPartCtor
      then [ResponseText (JStr (S ''<think>'' @ newText @ S ''</think>''))]
      else [ResponseThinking newText (ru_id reasoning) (ru_metadata reasoning)])"

text \<open>The reasoning block of the loop body (source lines 148 to 160).\<close>

definition streamResponse_reasoning :: "bool \<Rightarrow> stream_state \<Rightarrow> choice \<Rightarrow> stream_state" where
  "streamResponse_reasoning thinkingPartCtor st c =
     (if thinkingPartCtor then
        (case getLatestReasoningUpdate c of
           Some latestReasoning \<Rightarrow>
             (let newReasoning =
                    (if startsWith (ru_text latestReasoning) (reasoningBuffer st)
                     then drop (length (reasoningBuffer st)) (ru_text latestReasoning)
                     else ru_text latestReasoning)
              in if length newReasoning > 0
                 then st\<lparr>progress := progress st @
                            reportReasoning thinkingPartCtor newReasoning latestReasoning,
                         reasoningBuffer := ru_text latestReasoning\<rparr>
                 else st)
         | None \<Rightarrow> st)
      else st)"

text \<open>\<open>if (v)\<close>: every value but \<open>undefined\<close>, \<open>null\<close>, \<open>false\<close>, \<open>0\<close>, \<open>NaN\<close> and \<open>""\<close>.\<close>

fun truthy :: "jsval \<Rightarrow> bool" where
  "truthy JUndefined = False"
| "truthy JNull = False"
| "truthy (JBool b) = b"
| "truthy (JNum (Finite r)) = (r \<noteq> 0)"
| "truthy (JNum NaN) = False"
| "truthy (JNum n) = True"
| "truthy (JStr s) = (length s > 0)"
| "truthy (JArr xs) = True"
| "truthy (JObj kv) = True"

text \<open>The text block (lines 162 to 165): any truthy \<open>content\<close> is reported.\<close>

definition streamResponse_content :: "stream_state \<Rightarrow> choice \<Rightarrow> stream_state" where
  "streamResponse_content st c =
     (let content = get (delta c) (S ''content'')
      in if truthy content then st\<lparr>progress := progress st @ [ResponseText content]\<rparr> else st)"

text \<open>\<open>Number.isInteger(x) && x >= 0\<close> on a value of type number.\<close>

fun isNonNegativeInteger :: "jsval \<Rightarrow> bool" where
  "isNonNegativeInteger (JNum (Finite r)) = (r = of_int \<lfloor>r\<rfloor> \<and> r \<ge> 0)"
| "isNonNegativeInteger _ = False"

fun toIndex :: "jsval \<Rightarrow> nat" where
  "toIndex (JNum (Finite r)) = nat \<lfloor>r\<rfloor>"
| "toIndex _ = 0"

text \<open>What one fragment does to its accumulator.\<close>

definition mergeFragment :: "jsval \<Rightarrow> AccumulatedToolCall \<Rightarrow> AccumulatedToolCall" where
  "mergeFragment call current =
     (let current = (case get call (S ''id'') of
                       JStr s \<Rightarrow> if length s > 0 then current\<lparr>tc_id := Some s\<rparr> else current
                     | _ \<Rightarrow> current);
          current = (case get (get call (S ''function'')) (S ''name'') of
                       JStr s \<Rightarrow> if length s > 0 then current\<lparr>tc_name := Some s\<rparr> else current
                     | _ \<Rightarrow> current);
          current = (case get (get call (S ''function'')) (S ''arguments'') of
                       JStr s \<Rightarrow> if length s > 0
                                 then current\<lparr>tc_arguments := tc_arguments current @ s\<rparr>
                                 else current
                     | _ \<Rightarrow> current)
      in current)"

text \<open>\<open>accumulateToolCalls\<close>: the loop over \<open>delta.tool_calls\<close>.\<close>

fun accumulateToolCalls_loop ::
  "(nat \<times> AccumulatedToolCall) list \<Rightarrow> jsval list \<Rightarrow> (nat \<times> AccumulatedToolCall) list" where
  "accumulateToolCalls_loop pending [] = pending"
| "accumulateToolCalls_loop pending (rawCall # rest) =
     (if \<not> isObjectLike rawCall then accumulateToolCalls_loop pending rest
      else
        (let index = (if isNonNegativeInteger (get rawCall (S ''index''))
                      then toIndex (get rawCall (S ''index'')) else length pending);
             current = (case map_of pending index of
                          Some c \<Rightarrow> c
                        | None \<Rightarrow> \<lparr>tc_index = index, tc_id = None, tc_name = None,
                                    tc_arguments = []\<rparr>)
         in accumulateToolCalls_loop
              (AList.update index (mergeFragment rawCall current) pending) rest))"

definition accumulateToolCalls ::
  "choice \<Rightarrow> (nat \<times> AccumulatedToolCall) list \<Rightarrow> (nat \<times> AccumulatedToolCall) list" where
  "accumulateToolCalls c pending =
     (case get (delta c) (S ''tool_calls'') of
        JArr calls \<Rightarrow> accumulateToolCalls_loop pending calls
      | _ \<Rightarrow> pending)"

definition isToolCallFinish :: "choice \<Rightarrow> bool" where
  "isToolCallFinish c =
     (finish_reason c = JStr (S ''tool_calls'') \<or> finish_reason c = JStr (S ''function_call''))"

text \<open>\<open>parseToolArguments\<close>.\<close>

definition parseToolArguments :: "builtins \<Rightarrow> jsstring \<Rightarrow> jsval" where
  "parseToolArguments B raw =
     (let t = trim raw
      in if length t = 0 then JObj []
         else (case JSON_parse B t of
                 Some parsed \<Rightarrow>
                   (case parsed of
                      JObj kv \<Rightarrow> parsed
                    | _ \<Rightarrow> JObj [(S ''value'', parsed)])
               | None \<Rightarrow> JObj [(S ''rawArguments'', JStr raw)]))"

text \<open>\<open>!s\<close> on an optional string: absent or empty.\<close>

definition missing :: "jsstring option \<Rightarrow> bool" where
  "missing s = (case s of None \<Rightarrow> True | Some v \<Rightarrow> length v = 0)"

text \<open>\<open>reportToolCalls\<close>: the calls sorted by index, the incomplete ones skipped.\<close>

fun reportToolCalls_loop :: "builtins \<Rightarrow> AccumulatedToolCall list \<Rightarrow> response_part list" where
  "reportToolCalls_loop B [] = []"
| "reportToolCalls_loop B (call # rest) =
     (if missing (tc_id call) \<or> missing (tc_name call) then reportToolCalls_loop B rest
      else ResponseToolCall (case tc_id call of Some i \<Rightarrow> i | None \<Rightarrow> [])
                            (case tc_name call of Some n \<Rightarrow> n | None \<Rightarrow> [])
                            (parseToolArguments B (tc_arguments call))
           # reportToolCalls_loop B rest)"

definition reportToolCalls :: "builtins \<Rightarrow> (nat \<times> AccumulatedToolCall) list \<Rightarrow> response_part list" where
  "reportToolCalls B pending =
     (let orderedCalls = sort_key tc_index (map snd pending)
      in reportToolCalls_loop B orderedCalls)"

text \<open>The tool-call block of the loop body (lines 167 to 171).\<close>

definition streamResponse_toolCalls :: "builtins \<Rightarrow> stream_state \<Rightarrow> choice \<Rightarrow> stream_state" where
  "streamResponse_toolCalls B st c =
     (let st = st\<lparr>pendingToolCalls := accumulateToolCalls c (pendingToolCalls st)\<rparr>
      in if \<not> toolCallsEmitted st \<and> isToolCallFinish c
         then st\<lparr>progress := progress st @ reportToolCalls B (pendingToolCalls st),
                 toolCallsEmitted := True\<rparr>
         else st)"

text \<open>The body of \<open>for (const choice of chunk.choices)\<close>, and that loop.\<close>

definition streamResponse_choice :: "builtins \<Rightarrow> bool \<Rightarrow> stream_state \<Rightarrow> choice \<Rightarrow> stream_state" where
  "streamResponse_choice B thinkingPartCtor st c =
     streamResponse_toolCalls B
       (streamResponse_content (streamResponse_reasoning thinkingPartCtor st c) c) c"

fun streamResponse_choices :: "builtins \<Rightarrow> bool \<Rightarrow> stream_state \<Rightarrow> choice list \<Rightarrow> stream_state" where
  "streamResponse_choices B thinkingPartCtor st [] = st"
| "streamResponse_choices B thinkingPartCtor st (c # cs) =
     streamResponse_choices B thinkingPartCtor (streamResponse_choice B thinkingPartCtor st c) cs"

text \<open>
  The loop \<open>for await (const chunk of stream)\<close>. Each chunk comes with the value that
  \<open>token.isCancellationRequested\<close> has when it arrives; the loop returns at the first
  chunk that finds the token cancelled.
\<close>

fun streamResponse_chunks ::
  "builtins \<Rightarrow> bool \<Rightarrow> stream_state \<Rightarrow> (bool \<times> chunk) list \<Rightarrow> stream_state" where
  "streamResponse_chunks B thinkingPartCtor st [] = st"
| "streamResponse_chunks B thinkingPartCtor st ((isCancellationRequested, ch) # rest) =
     (if isCancellationRequested then st
      else streamResponse_chunks B thinkingPartCtor
             (streamResponse_choices B thinkingPartCtor st (choices ch)) rest)"





fun isResponseToolCall :: "response_part \<Rightarrow> bool" where
  "isResponseToolCall (ResponseToolCall callId n input) = True"
| "isResponseToolCall _ = False"

definition completeCall :: "AccumulatedToolCall \<Rightarrow> bool" where
  "completeCall call = (\<not> missing (tc_id call) \<and> \<not> missing (tc_name call))"

definition invocation :: "builtins \<Rightarrow> AccumulatedToolCall \<Rightarrow> response_part" where
  "invocation B call =
     ResponseToolCall (case tc_id call of Some i \<Rightarrow> i | None \<Rightarrow> [])
                      (case tc_name call of Some n \<Rightarrow> n | None \<Rightarrow> [])
                      (parseToolArguments B (tc_arguments call))"


definition fragment_choice :: "jsval \<Rightarrow> choice" where
  "fragment_choice fragment =
     \<lparr>delta = JObj [(S ''tool_calls'', JArr [fragment])], finish_reason = JNull\<rparr>"

definition fragment :: "nat \<Rightarrow> (jsstring \<times> jsval) list \<Rightarrow> jsval" where
  "fragment i props = JObj ((S ''index'', JNum (Finite (of_nat i))) # props)"

definition tool_calls_choice :: "jsval list \<Rightarrow> jsval \<Rightarrow> choice" where
  "tool_calls_choice fragments reason =
     \<lparr>delta = JObj [(S ''tool_calls'', JArr fragments)], finish_reason = reason\<rparr>"

definition finish_choice :: "jsstring \<Rightarrow> choice" where
  "finish_choice reason = \<lparr>delta = JObj [], finish_reason = JStr reason\<rparr>"

definition live :: "choice list \<Rightarrow> bool \<times> chunk" where
  "live cs = (False, \<lparr>choices = cs\<rparr>)"

fun isPlainObject :: "jsval \<Rightarrow> bool" where
  "isPlainObject (JObj kv) = True"
| "isPlainObject _ = False"

text \<open>
  A runtime for the examples: \<open>JSON.parse\<close> tabulated on the texts the examples parse
  (\<open>{"a":1}\<close> and \<open>42\<close>; it throws on \<open>not json\<close>) and \<open>JSON.stringify\<close> on the
  number 7; the other functions are not reached by them.
\<close>

definition example_runtime :: builtins where
  \<open>example_runtime =
     \<lparr>JSON_parse = (\<lambda>s. if s = S ''{"a":1}'' then Some (JObj [(S ''a'', JNum (Finite 1))])
                         else if s = S ''42'' then Some (JNum (Finite 42))
                         else None),
      JSON_stringify = (\<lambda>v. if v = JNum (Finite 7) then Some (JStr (S ''7'')) else None),
      String_other = (\<lambda>v. S ''[object Object]''),
      base64 = (\<lambda>bytes. [])\<rparr>\<close>

section \<open>MiniMaxClient\<close>

text \<open>
  What a \<open>catch\<close> can receive: an instance of \<open>OpenAI.APIError\<close> (its name, its
  \<open>status\<close>, possibly absent, and its message; the errors the client library raises,
  the one for an aborted request among them, are of this class), any other instance of
  \<open>Error\<close> (name and message), a plain value that is no \<open>Error\<close>, or an object that is
  no \<open>Error\<close> and that \<open>String\<close> cannot coerce (no prototype, or a \<open>toString\<close> that
  throws).
\<close>

datatype thrown =
    APIError jsstring "jsnumber option" jsstring
  | ErrorObject jsstring jsstring
  | Thrown jsval
  | ThrownExotic

text \<open>The error a call raises instead of returning.\<close>

datatype jserror = TypeError

record MiniMaxError =
  message :: jsstring
  code :: jsstring
  statusCode :: "jsnumber option"

text \<open>
  \<open>toMiniMaxError\<close>. The tests run in the order of the source; \<open>String(error)\<close> in
  the last branch raises on an object it cannot coerce.
\<close>

fun toMiniMaxError :: "builtins \<Rightarrow> thrown \<Rightarrow> jserror + MiniMaxError" where
  "toMiniMaxError B (APIError n status msg) =
     (let statusCode = (case status of Some s \<Rightarrow> s | None \<Rightarrow> Finite 0);
          code = (if statusCode = Finite 401 then S ''AUTHENTICATION_ERROR'' else S ''API_ERROR'')
      in Inr \<lparr>message = msg, code = code, statusCode = Some statusCode\<rparr>)"
| "toMiniMaxError B (ErrorObject n msg) =
     (if n = S ''AbortError''
      then Inr \<lparr>message = S ''Request timeout'', code = S ''TIMEOUT'', statusCode = None\<rparr>
      else Inr \<lparr>message = msg, code = S ''NETWORK_ERROR'', statusCode = None\<rparr>)"
| "toMiniMaxError B (Thrown v) =
     Inr \<lparr>message = ToString B v, code = S ''UNKNOWN_ERROR'', statusCode = None\<rparr>"
| "toMiniMaxError B ThrownExotic = Inl TypeError"

record ChatOptions =
  temperature :: "jsnumber option"
  maxTokens :: "jsnumber option"
  apiKey :: "jsstring option"
  tools :: "tool_function list option"
  toolChoice :: "jsstring option"
  reasoningSplit :: "bool option"

text \<open>
  The request handed to \<open>client.chat.completions.create\<close>, with the key the OpenAI
  client was built with. \<open>toOpenAiMessages\<close> copies role and content of each message,
  so the messages go through as they are.
\<close>

record request =
  req_apiKey :: jsstring
  req_model :: jsstring
  req_stream :: bool
  req_messages :: "MiniMaxMessage list"
  req_temperature :: jsnumber
  req_max_tokens :: jsnumber
  req_tools :: "tool_function list option"
  req_tool_choice :: "jsstring option"
  req_reasoning_split :: bool

text \<open>
  The transport answers a request with the chunks it delivers and, possibly, the value
  it throws after them (a failing \<open>create\<close> delivers no chunk).
\<close>

datatype response = Response "chunk list" "thrown option"

text \<open>
  What a consumer that drains the generator observes: the requests the transport
  received, the chunks yielded, and what the generator throws, if anything: a
  \<open>MiniMaxError\<close> (\<open>Inr\<close>), or the error raised while classifying (\<open>Inl\<close>).
\<close>

record outcome =
  requests :: "request list"
  yielded :: "chunk list"
  failure :: "(jserror + MiniMaxError) option"

definition buildParams :: "jsstring \<Rightarrow> jsstring \<Rightarrow> MiniMaxMessage list \<Rightarrow> ChatOptions option \<Rightarrow> request" where
  "buildParams k model messages options =
     \<lparr>req_apiKey = k,
      req_model = model,
      req_stream = True,
      req_messages = messages,
      req_temperature = (case Option.bind options temperature of Some t \<Rightarrow> t | None \<Rightarrow> Finite 1),
      req_max_tokens = (case Option.bind options maxTokens of Some m \<Rightarrow> m | None \<Rightarrow> Finite 8192),
      req_tools = (case Option.bind options tools of
                     Some ts \<Rightarrow> if length ts > 0 then Some ts else None
                   | None \<Rightarrow> None),
      req_tool_choice = (case Option.bind options toolChoice of
                           Some c \<Rightarrow> if length c > 0 then Some c else None
                         | None \<Rightarrow> None),
      req_reasoning_split = (case Option.bind options reasoningSplit of Some b \<Rightarrow> b | None \<Rightarrow> True)\<rparr>"

text \<open>
  The loop \<open>for await (const chunk of stream)\<close> of the client: \<open>cancelled i\<close> is
  \<open>isCancellationRequested\<close> when chunk \<open>i\<close> arrives. The result tells whether the
  stream was read to its end.
\<close>

fun yieldChunks :: "(nat \<Rightarrow> bool) \<Rightarrow> nat \<Rightarrow> chunk list \<Rightarrow> chunk list \<times> bool" where
  "yieldChunks cancelled i [] = ([], True)"
| "yieldChunks cancelled i (ch # rest) =
     (if cancelled i then ([], False)
      else (let (ys, finished) = yieldChunks cancelled (Suc i) rest in (ch # ys, finished)))"

definition streamChat ::
  "builtins \<Rightarrow> (request \<Rightarrow> response) \<Rightarrow> jsstring \<Rightarrow> MiniMaxMessage list \<Rightarrow>
   ChatOptions option \<Rightarrow> (nat \<Rightarrow> bool) \<Rightarrow> outcome" where
  "streamChat B transport model messages options cancelled =
     (case map_option trim (Option.bind options apiKey) of
        None \<Rightarrow>
          \<lparr>requests = [], yielded = [],
           failure = Some (Inr \<lparr>message = S ''API key is required'', code = S ''NO_API_KEY'',
                                statusCode = Some (Finite 401)\<rparr>)\<rparr>
      | Some k \<Rightarrow>
          if length k = 0 then
            \<lparr>requests = [], yielded = [],
             failure = Some (Inr \<lparr>message = S ''API key is required'', code = S ''NO_API_KEY'',
                                  statusCode = Some (Finite 401)\<rparr>)\<rparr>
          else
            (let params = buildParams k model messages options
             in case transport params of
                  Response chunks err \<Rightarrow>
                    (let (ys, finished) = yieldChunks cancelled 0 chunks
                     in \<lparr>requests = [params], yielded = ys,
                         failure = (if finished then map_option (toMiniMaxError B) err
                                    else None)\<rparr>)))"

text \<open>Reference notion: the key is absent or blank after trimming.\<close>

definition blankApiKey :: "ChatOptions option \<Rightarrow> bool" where
  "blankApiKey options =
     (case options of
        None \<Rightarrow> True
      | Some opts \<Rightarrow> (case apiKey opts of None \<Rightarrow> True | Some k \<Rightarrow> trim k = []))"

section \<open>Lemmas: token counting\<close>

lemma estimateTokens_div: "estimateTokens text = (length text + 3) div 4"
proof -
  have "\<lceil>real n / 4\<rceil> = int ((n + 3) div 4)" for n :: nat
  proof -
    have "\<lceil>real n / 4\<rceil> = - \<lfloor>- (real n / 4)\<rfloor>"
      by (simp add: ceiling_def)
    also have "- (real n / 4) = real_of_int (- int n) / real_of_int 4"
      by simp
    also have "\<lfloor>real_of_int (- int n) / real_of_int 4\<rfloor> = (- int n) div 4"
      by (simp only: floor_divide_of_int_eq)
    also have "- ((- int n) div 4) = int ((n + 3) div 4)"
      by (simp add: zdiv_int)
    finally show ?thesis .
  qed
  then show ?thesis
    by (simp add: estimateTokens_def charsPerToken_def)
qed

lemma totalChars_loop_sum:
  "totalChars_loop acc ps = acc + sum_list (map length (text_values ps))"
  by (induction acc ps rule: totalChars_loop.induct) simp_all

lemma length_String_of_nat: "length (String_of_nat n) = decimal_digits n"
proof (induction n rule: String_of_nat.induct)
  case (1 n)
  show ?case
  proof (cases "n < 10")
    case True
    then have "floorlog 10 n = 1" if "n \<noteq> 0"
      using that by (subst compute_floorlog) (simp add: compute_floorlog)
    with True show ?thesis
      by (subst String_of_nat.simps) (simp add: decimal_digits_def)
  next
    case False
    then have nz: "n div 10 \<noteq> 0" "n \<noteq> 0"
      by simp_all
    have "floorlog 10 n = floorlog 10 (n div 10) + 1"
      using nz by (subst compute_floorlog) simp
    moreover have "length (String_of_nat n) = length (String_of_nat (n div 10)) + 1"
      using False by (subst String_of_nat.simps) simp
    ultimately show ?thesis
      using 1 False nz by (simp add: decimal_digits_def)
  qed
qed

section \<open>Lemmas: message mapper\<close>

lemma trim_Nil: "trim [] = []"
  by (simp add: trim_def)

lemma trim_all_whitespace: "list_all isWhiteSpace s \<Longrightarrow> trim s = []"
  by (auto simp: trim_def list_all_iff dest: set_dropWhileD)

lemma concatTextParts_loop_concat:
  "concatTextParts_loop acc ps = acc @ concat (text_values ps)"
  by (induction acc ps rule: concatTextParts_loop.induct) simp_all

lemma concatToolResultContent_loop_concat:
  "concatToolResultContent_loop B acc ps = acc @ concat (map (renderResultPart B) ps)"
  by (induction ps arbitrary: acc) simp_all

lemma toolMessages_loop_map:
  "toolMessages_loop B acc ps =
     acc @ map (\<lambda>(callId, content). ToolMessage callId (concatToolResultContent B content))
             (tool_results ps)"
  by (induction B acc ps rule: toolMessages_loop.induct) simp_all

lemma toMiniMaxUserAndToolMessages_unfold:
  "toMiniMaxUserAndToolMessages B parts =
     (if 0 < length (trim (concat (text_values parts))) \<or> length (tool_results parts) = 0
      then [UserMessage (concat (text_values parts))] else [])
     @ map (\<lambda>(callId, content). ToolMessage callId (concatToolResultContent B content))
         (tool_results parts)"
  by (simp add: toMiniMaxUserAndToolMessages_def concatTextParts_def
      concatTextParts_loop_concat toolMessages_loop_map Let_def)

lemma tool_results_only:
  "list_all isToolResultPart ps \<Longrightarrow>
     text_values ps = [] \<and> length (tool_results ps) = length ps"
  by (induction ps rule: tool_results.induct) simp_all

section \<open>Lemmas: tool schema normalizer\<close>

lemma update_absent: "map_of kv k = None \<Longrightarrow> AList.update k v kv = kv @ [(k, v)]"
  by (induction kv) (auto split: if_splits)

lemma map_of_append_absent:
  "map_of kv k = None \<Longrightarrow> map_of (kv @ [(k', v)]) k = (if k = k' then Some v else None)"
  by (simp add: map_add_def split: option.splits)

lemma type_neq_properties: "S ''type'' \<noteq> S ''properties''"
  by (simp add: S_def)

lemma convertTools_loop_map:
  "convertTools_loop acc ts = acc @ map convertTool (filter named ts)"
  by (induction acc ts rule: convertTools_loop.induct)
     (auto simp: normalizeToolName_def named_def convertTool_def Let_def
           split: option.splits if_splits)

section \<open>Lemmas: response reconstructor\<close>

lemma reportToolCalls_loop_filter:
  "reportToolCalls_loop B calls = map (invocation B) (filter completeCall calls)"
  by (induction calls) (simp_all add: completeCall_def invocation_def)

section \<open>Lemmas: reasoning updates\<close>












section \<open>Lemmas: tool-call emission\<close>

lemma reportToolCalls_eq:
  "reportToolCalls B pending =
     map (invocation B) (filter completeCall (sort_key tc_index (map snd pending)))"
  by (simp add: reportToolCalls_def reportToolCalls_loop_filter)

lemma tool_parts_report:
  "filter isResponseToolCall (reportToolCalls B pending) = reportToolCalls B pending"
  by (simp add: reportToolCalls_eq filter_map o_def invocation_def)

lemma reasoning_fields:
  "pendingToolCalls (streamResponse_reasoning ctor st c) = pendingToolCalls st"
  "toolCallsEmitted (streamResponse_reasoning ctor st c) = toolCallsEmitted st"
  "filter isResponseToolCall (progress (streamResponse_reasoning ctor st c)) =
     filter isResponseToolCall (progress st)"
  by (simp_all add: streamResponse_reasoning_def reportReasoning_def Let_def split: option.splits)

lemma content_fields:
  "pendingToolCalls (streamResponse_content st c) = pendingToolCalls st"
  "toolCallsEmitted (streamResponse_content st c) = toolCallsEmitted st"
  "filter isResponseToolCall (progress (streamResponse_content st c)) =
     filter isResponseToolCall (progress st)"
  by (simp_all add: streamResponse_content_def Let_def)

lemma toolCalls_fields:
  "pendingToolCalls (streamResponse_toolCalls B st c) = accumulateToolCalls c (pendingToolCalls st)"
  "toolCallsEmitted (streamResponse_toolCalls B st c) = (toolCallsEmitted st \<or> isToolCallFinish c)"
  "filter isResponseToolCall (progress (streamResponse_toolCalls B st c)) =
     filter isResponseToolCall (progress st) @
     (if \<not> toolCallsEmitted st \<and> isToolCallFinish c
      then reportToolCalls B (accumulateToolCalls c (pendingToolCalls st)) else [])"
  by (simp_all add: streamResponse_toolCalls_def Let_def tool_parts_report)

lemma choice_fields:
  "pendingToolCalls (streamResponse_choice B ctor st c) = accumulateToolCalls c (pendingToolCalls st)"
  "toolCallsEmitted (streamResponse_choice B ctor st c) = (toolCallsEmitted st \<or> isToolCallFinish c)"
  "filter isResponseToolCall (progress (streamResponse_choice B ctor st c)) =
     filter isResponseToolCall (progress st) @
     (if \<not> toolCallsEmitted st \<and> isToolCallFinish c
      then reportToolCalls B (accumulateToolCalls c (pendingToolCalls st)) else [])"
  by (simp_all add: streamResponse_choice_def toolCalls_fields content_fields reasoning_fields)

lemma choices_append:
  "streamResponse_choices B ctor st (xs @ ys) =
     streamResponse_choices B ctor (streamResponse_choices B ctor st xs) ys"
  by (induction xs arbitrary: st) simp_all

lemma choices_emitted:
  "toolCallsEmitted st \<Longrightarrow>
     toolCallsEmitted (streamResponse_choices B ctor st cs) \<and>
     filter isResponseToolCall (progress (streamResponse_choices B ctor st cs)) =
       filter isResponseToolCall (progress st)"
  by (induction cs arbitrary: st) (simp_all add: choice_fields)

lemma chunks_emitted:
  "toolCallsEmitted st \<Longrightarrow>
     toolCallsEmitted (streamResponse_chunks B ctor st stream) \<and>
     filter isResponseToolCall (progress (streamResponse_chunks B ctor st stream)) =
       filter isResponseToolCall (progress st)"
proof (induction stream arbitrary: st)
  case Nil
  then show ?case by simp
next
  case (Cons x stream)
  obtain cancelled ch where x: "x = (cancelled, ch)"
    by (cases x)
  from Cons.prems choices_emitted [of st B ctor "choices ch"]
  have "toolCallsEmitted (streamResponse_choices B ctor st (choices ch))"
    and "filter isResponseToolCall (progress (streamResponse_choices B ctor st (choices ch))) =
       filter isResponseToolCall (progress st)"
    by simp_all
  with Cons.IH [of "streamResponse_choices B ctor st (choices ch)"] Cons.prems x
  show ?case
    by simp
qed

lemma choices_no_finish:
  "\<not> toolCallsEmitted st \<Longrightarrow> list_all (\<lambda>c. \<not> isToolCallFinish c) cs \<Longrightarrow>
     \<not> toolCallsEmitted (streamResponse_choices B ctor st cs) \<and>
     filter isResponseToolCall (progress (streamResponse_choices B ctor st cs)) =
       filter isResponseToolCall (progress st)"
  by (induction cs arbitrary: st) (simp_all add: choice_fields)

lemma chunks_flatten:
  "streamResponse_chunks B ctor st stream =
     streamResponse_choices B ctor st
       (concat (map (\<lambda>x. choices (snd x)) (takeWhile (\<lambda>x. \<not> fst x) stream)))"
  by (induction stream arbitrary: st) (auto simp: choices_append)

lemma emitted_once:
  assumes "\<not> toolCallsEmitted st" "list_all (\<lambda>c. \<not> isToolCallFinish c) pre" "isToolCallFinish c"
  shows "filter isResponseToolCall (progress (streamResponse_choices B ctor st (pre @ c # post))) =
     filter isResponseToolCall (progress st) @
     reportToolCalls B (pendingToolCalls (streamResponse_choices B ctor st (pre @ [c])))"
proof -
  let ?s1 = "streamResponse_choices B ctor st pre"
  let ?s2 = "streamResponse_choice B ctor ?s1 c"
  from assms choices_no_finish [of st pre B ctor]
  have s1: "\<not> toolCallsEmitted ?s1"
    "filter isResponseToolCall (progress ?s1) = filter isResponseToolCall (progress st)"
    by simp_all
  from s1 assms(3) have s2: "toolCallsEmitted ?s2"
    "filter isResponseToolCall (progress ?s2) =
       filter isResponseToolCall (progress st) @ reportToolCalls B (pendingToolCalls ?s2)"
    by (simp_all add: choice_fields)
  have "streamResponse_choices B ctor st (pre @ c # post) = streamResponse_choices B ctor ?s2 post"
    by (simp add: choices_append)
  moreover have "streamResponse_choices B ctor st (pre @ [c]) = ?s2"
    by (simp add: choices_append)
  ultimately show ?thesis
    using s2 choices_emitted [of ?s2 B ctor post] by simp
qed

lemma mergeFragment_fields:
  "tc_index (mergeFragment call cur) = tc_index cur"
  "tc_id (mergeFragment call cur) =
     (case get call (S ''id'') of JStr s \<Rightarrow> if length s > 0 then Some s else tc_id cur | _ \<Rightarrow> tc_id cur)"
  "tc_name (mergeFragment call cur) =
     (case get (get call (S ''function'')) (S ''name'') of
        JStr s \<Rightarrow> if length s > 0 then Some s else tc_name cur | _ \<Rightarrow> tc_name cur)"
  "tc_arguments (mergeFragment call cur) =
     tc_arguments cur @
     (case get (get call (S ''function'')) (S ''arguments'') of JStr s \<Rightarrow> s | _ \<Rightarrow> [])"
  by (simp_all add: mergeFragment_def Let_def split: jsval.splits)

lemma fragment_choice_parts:
  "streamResponse_reasoning ctor st (fragment_choice f) = st"
  "streamResponse_content st (fragment_choice f) = st"
  "accumulateToolCalls (fragment_choice f) p = accumulateToolCalls_loop p [f]"
  "isToolCallFinish (fragment_choice f) = False"
  by (simp_all add: streamResponse_reasoning_def streamResponse_content_def
      getLatestReasoningUpdate_def accumulateToolCalls_def isToolCallFinish_def
      fragment_choice_def S_def)

lemma finish_choice_parts:
  "streamResponse_reasoning ctor st (finish_choice reason) = st"
  "streamResponse_content st (finish_choice reason) = st"
  "accumulateToolCalls (finish_choice reason) p = p"
  "isToolCallFinish (finish_choice reason) =
     (reason = S ''tool_calls'' \<or> reason = S ''function_call'')"
  by (simp_all add: streamResponse_reasoning_def streamResponse_content_def
      getLatestReasoningUpdate_def accumulateToolCalls_def isToolCallFinish_def
      finish_choice_def)

lemma fragment_choice_effect:
  "streamResponse_choice B ctor
      \<lparr>reasoningBuffer = b, pendingToolCalls = p, toolCallsEmitted = e, progress = out\<rparr>
      (fragment_choice f) =
     \<lparr>reasoningBuffer = b, pendingToolCalls = accumulateToolCalls_loop p [f],
      toolCallsEmitted = e, progress = out\<rparr>"
  by (simp add: streamResponse_choice_def streamResponse_toolCalls_def fragment_choice_parts)

lemma finish_choice_effect:
  "streamResponse_choice B ctor
      \<lparr>reasoningBuffer = b, pendingToolCalls = p, toolCallsEmitted = e, progress = out\<rparr>
      (finish_choice reason) =
     (if \<not> e \<and> (reason = S ''tool_calls'' \<or> reason = S ''function_call'')
      then \<lparr>reasoningBuffer = b, pendingToolCalls = p, toolCallsEmitted = True,
            progress = out @ reportToolCalls B p\<rparr>
      else \<lparr>reasoningBuffer = b, pendingToolCalls = p, toolCallsEmitted = e, progress = out\<rparr>)"
  by (simp add: streamResponse_choice_def streamResponse_toolCalls_def finish_choice_parts)

lemma fragment_fields:
  "isObjectLike (fragment i props)"
  "isNonNegativeInteger (get (fragment i props) (S ''index''))"
  "toIndex (get (fragment i props) (S ''index'')) = i"
  by (simp_all add: fragment_def)

lemma fragment_step:
  "accumulateToolCalls_loop p [fragment i props] =
     AList.update i
       (mergeFragment (fragment i props)
          (case map_of p i of Some c \<Rightarrow> c
           | None \<Rightarrow> \<lparr>tc_index = i, tc_id = None, tc_name = None, tc_arguments = []\<rparr>)) p"
  by (simp add: fragment_fields Let_def del: get.simps)

lemma run_example_pending:
  "accumulateToolCalls_loop [] [fragment 0 [(S ''id'', JStr (S ''c1''))]] =
     [(0, \<lparr>tc_index = 0, tc_id = Some (S ''c1''), tc_name = None, tc_arguments = []\<rparr>)]"
  "accumulateToolCalls_loop
     [(0, \<lparr>tc_index = 0, tc_id = Some (S ''c1''), tc_name = None, tc_arguments = []\<rparr>)]
     [fragment 0 [(S ''function'', JObj [(S ''name'', JStr (S ''run''))])]] =
     [(0, \<lparr>tc_index = 0, tc_id = Some (S ''c1''), tc_name = Some (S ''run''), tc_arguments = []\<rparr>)]"
  \<open>accumulateToolCalls_loop
     [(0, \<lparr>tc_index = 0, tc_id = Some (S ''c1''), tc_name = Some (S ''run''), tc_arguments = []\<rparr>)]
     [fragment 0 [(S ''function'', JObj [(S ''arguments'', JStr (S ''{"a":''))])]] =
     [(0, \<lparr>tc_index = 0, tc_id = Some (S ''c1''), tc_name = Some (S ''run''),
          tc_arguments = S ''{"a":''\<rparr>)]\<close>
  \<open>accumulateToolCalls_loop
     [(0, \<lparr>tc_index = 0, tc_id = Some (S ''c1''), tc_name = Some (S ''run''),
          tc_arguments = S ''{"a":''\<rparr>)]
     [fragment 0 [(S ''function'', JObj [(S ''arguments'', JStr (S ''1}''))])]] =
     [(0, \<lparr>tc_index = 0, tc_id = Some (S ''c1''), tc_name = Some (S ''run''),
          tc_arguments = S ''{"a":1}''\<rparr>)]\<close>
  unfolding fragment_step
  by (simp_all add: mergeFragment_def fragment_def S_def)

lemma parse_run_example:
  \<open>JSON_parse B (S ''{"a":1}'') = Some (JObj [(S ''a'', JNum (Finite 1))]) \<Longrightarrow>
   parseToolArguments B (S ''{"a":1}'') = JObj [(S ''a'', JNum (Finite 1))]\<close>
proof -
  assume p: \<open>JSON_parse B (S ''{"a":1}'') = Some (JObj [(S ''a'', JNum (Finite 1))])\<close>
  have t: \<open>trim (S ''{"a":1}'') = S ''{"a":1}''\<close>
    by (simp add: trim_def S_def isWhiteSpace_def)
  have ne: \<open>length (S ''{"a":1}'') \<noteq> 0\<close>
    by (simp add: S_def)
  show ?thesis
    unfolding parseToolArguments_def t using p ne by (simp add: Let_def)
qed

lemma parse_empty: "parseToolArguments B [] = JObj []"
  by (simp add: parseToolArguments_def trim_def)

lemma run_example_report:
  \<open>reportToolCalls B
     [(0, \<lparr>tc_index = 0, tc_id = Some (S ''c1''), tc_name = Some (S ''run''),
          tc_arguments = S ''{"a":1}''\<rparr>)] =
   [ResponseToolCall (S ''c1'') (S ''run'') (parseToolArguments B (S ''{"a":1}''))]\<close>
  by (simp add: reportToolCalls_def missing_def S_def)

lemma run_example_stream:
  \<open>streamResponse_chunks B ctor initial_state
     [live [fragment_choice (fragment 0 [(S ''id'', JStr (S ''c1''))])],
      live [fragment_choice (fragment 0 [(S ''function'', JObj [(S ''name'', JStr (S ''run''))])])],
      live [fragment_choice (fragment 0 [(S ''function'', JObj [(S ''arguments'', JStr (S ''{"a":''))])])],
      live [fragment_choice (fragment 0 [(S ''function'', JObj [(S ''arguments'', JStr (S ''1}''))])])],
      live [finish_choice (S ''tool_calls'')]] =
   \<lparr>reasoningBuffer = [],
    pendingToolCalls = [(0, \<lparr>tc_index = 0, tc_id = Some (S ''c1''), tc_name = Some (S ''run''),
          tc_arguments = S ''{"a":1}''\<rparr>)],
    toolCallsEmitted = True,
    progress = [ResponseToolCall (S ''c1'') (S ''run'') (parseToolArguments B (S ''{"a":1}''))]\<rparr>\<close>
  by (simp add: live_def initial_state_def fragment_choice_effect finish_choice_effect run_example_pending
      run_example_report del: accumulateToolCalls_loop.simps)

lemma unordered_example_pending:
  "accumulateToolCalls_loop []
     [fragment 3 [(S ''id'', JStr (S ''c2'')), (S ''function'', JObj [(S ''name'', JStr (S ''b''))])]] =
     [(3, \<lparr>tc_index = 3, tc_id = Some (S ''c2''), tc_name = Some (S ''b''), tc_arguments = []\<rparr>)]"
  "accumulateToolCalls_loop
     [(3, \<lparr>tc_index = 3, tc_id = Some (S ''c2''), tc_name = Some (S ''b''), tc_arguments = []\<rparr>)]
     [fragment 0 [(S ''id'', JStr (S ''c1'')), (S ''function'', JObj [(S ''name'', JStr (S ''a''))])]] =
     [(3, \<lparr>tc_index = 3, tc_id = Some (S ''c2''), tc_name = Some (S ''b''), tc_arguments = []\<rparr>),
      (0, \<lparr>tc_index = 0, tc_id = Some (S ''c1''), tc_name = Some (S ''a''), tc_arguments = []\<rparr>)]"
  "accumulateToolCalls_loop
     [(3, \<lparr>tc_index = 3, tc_id = Some (S ''c2''), tc_name = Some (S ''b''), tc_arguments = []\<rparr>),
      (0, \<lparr>tc_index = 0, tc_id = Some (S ''c1''), tc_name = Some (S ''a''), tc_arguments = []\<rparr>)]
     [fragment 2 [(S ''function'', JObj [(S ''name'', JStr (S ''c''))])]] =
     [(3, \<lparr>tc_index = 3, tc_id = Some (S ''c2''), tc_name = Some (S ''b''), tc_arguments = []\<rparr>),
      (0, \<lparr>tc_index = 0, tc_id = Some (S ''c1''), tc_name = Some (S ''a''), tc_arguments = []\<rparr>),
      (2, \<lparr>tc_index = 2, tc_id = None, tc_name = Some (S ''c''), tc_arguments = []\<rparr>)]"
  unfolding fragment_step
  by (simp_all add: mergeFragment_def fragment_def S_def)

lemma unordered_example_report:
  "reportToolCalls B
     [(3, \<lparr>tc_index = 3, tc_id = Some (S ''c2''), tc_name = Some (S ''b''), tc_arguments = []\<rparr>),
      (0, \<lparr>tc_index = 0, tc_id = Some (S ''c1''), tc_name = Some (S ''a''), tc_arguments = []\<rparr>),
      (2, \<lparr>tc_index = 2, tc_id = None, tc_name = Some (S ''c''), tc_arguments = []\<rparr>)] =
   [ResponseToolCall (S ''c1'') (S ''a'') (JObj []), ResponseToolCall (S ''c2'') (S ''b'') (JObj [])]"
  by (simp add: reportToolCalls_def missing_def parse_empty S_def)

lemma unordered_example_state:
  "pendingToolCalls (streamResponse_choices B ctor initial_state
     ([fragment_choice (fragment 3 [(S ''id'', JStr (S ''c2'')), (S ''function'', JObj [(S ''name'', JStr (S ''b''))])]),
       fragment_choice (fragment 0 [(S ''id'', JStr (S ''c1'')), (S ''function'', JObj [(S ''name'', JStr (S ''a''))])]),
       fragment_choice (fragment 2 [(S ''function'', JObj [(S ''name'', JStr (S ''c''))])])]
      @ [finish_choice (S ''tool_calls'')])) =
     [(3, \<lparr>tc_index = 3, tc_id = Some (S ''c2''), tc_name = Some (S ''b''), tc_arguments = []\<rparr>),
      (0, \<lparr>tc_index = 0, tc_id = Some (S ''c1''), tc_name = Some (S ''a''), tc_arguments = []\<rparr>),
      (2, \<lparr>tc_index = 2, tc_id = None, tc_name = Some (S ''c''), tc_arguments = []\<rparr>)]"
  by (simp add: initial_state_def fragment_choice_effect finish_choice_effect unordered_example_pending
      del: accumulateToolCalls_loop.simps)

lemma accumulate_append:
  "accumulateToolCalls_loop pending (xs @ ys) =
     accumulateToolCalls_loop (accumulateToolCalls_loop pending xs) ys"
  by (induction xs arbitrary: pending) (simp_all add: Let_def del: get.simps)

lemma accumulate_Cons2:
  "accumulateToolCalls_loop pending (f # g # gs) =
     accumulateToolCalls_loop (accumulateToolCalls_loop pending [f]) (g # gs)"
  using accumulate_append [of pending "[f]" "g # gs"] by simp

lemma tool_calls_choice_parts:
  "streamResponse_reasoning ctor st (tool_calls_choice fs reason) = st"
  "streamResponse_content st (tool_calls_choice fs reason) = st"
  "accumulateToolCalls (tool_calls_choice fs reason) p = accumulateToolCalls_loop p fs"
  "isToolCallFinish (tool_calls_choice fs reason) =
     (reason = JStr (S ''tool_calls'') \<or> reason = JStr (S ''function_call''))"
  by (simp_all add: streamResponse_reasoning_def streamResponse_content_def
      getLatestReasoningUpdate_def accumulateToolCalls_def isToolCallFinish_def
      tool_calls_choice_def S_def)

lemma tool_calls_choice_effect:
  "streamResponse_choice B ctor
      \<lparr>reasoningBuffer = b, pendingToolCalls = p, toolCallsEmitted = e, progress = out\<rparr>
      (tool_calls_choice fs reason) =
     (if \<not> e \<and> (reason = JStr (S ''tool_calls'') \<or> reason = JStr (S ''function_call''))
      then \<lparr>reasoningBuffer = b, pendingToolCalls = accumulateToolCalls_loop p fs,
            toolCallsEmitted = True,
            progress = out @ reportToolCalls B (accumulateToolCalls_loop p fs)\<rparr>
      else \<lparr>reasoningBuffer = b, pendingToolCalls = accumulateToolCalls_loop p fs,
            toolCallsEmitted = e, progress = out\<rparr>)"
  by (simp add: streamResponse_choice_def streamResponse_toolCalls_def tool_calls_choice_parts
      Let_def)

lemma run_example_one_delta:
  \<open>accumulateToolCalls_loop []
     [fragment 0 [(S ''id'', JStr (S ''c1''))],
      fragment 0 [(S ''function'', JObj [(S ''name'', JStr (S ''run''))])],
      fragment 0 [(S ''function'', JObj [(S ''arguments'', JStr (S ''{"a":''))])],
      fragment 0 [(S ''function'', JObj [(S ''arguments'', JStr (S ''1}''))])]] =
   [(0, \<lparr>tc_index = 0, tc_id = Some (S ''c1''), tc_name = Some (S ''run''),
          tc_arguments = S ''{"a":1}''\<rparr>)]\<close>
  by (simp only: accumulate_Cons2 run_example_pending)

lemma skip_step: "accumulateToolCalls_loop p [JNull] = p"
  by simp

lemma unindexed_step:
  "accumulateToolCalls_loop
     [(0, \<lparr>tc_index = 0, tc_id = Some (S ''c1''), tc_name = Some (S ''run''), tc_arguments = []\<rparr>),
      (2, \<lparr>tc_index = 2, tc_id = Some (S ''c2''), tc_name = None, tc_arguments = []\<rparr>)]
     [JObj [(S ''function'', JObj [(S ''arguments'', JStr (S ''x''))])]] =
     [(0, \<lparr>tc_index = 0, tc_id = Some (S ''c1''), tc_name = Some (S ''run''), tc_arguments = []\<rparr>),
      (2, \<lparr>tc_index = 2, tc_id = Some (S ''c2''), tc_name = None, tc_arguments = S ''x''\<rparr>)]"
  by (simp add: mergeFragment_def S_def Let_def)

lemma mixed_example_steps:
  "accumulateToolCalls_loop
     [(0, \<lparr>tc_index = 0, tc_id = Some (S ''c1''), tc_name = None, tc_arguments = []\<rparr>)]
     [fragment 2 [(S ''id'', JStr (S ''c2''))]] =
     [(0, \<lparr>tc_index = 0, tc_id = Some (S ''c1''), tc_name = None, tc_arguments = []\<rparr>),
      (2, \<lparr>tc_index = 2, tc_id = Some (S ''c2''), tc_name = None, tc_arguments = []\<rparr>)]"
  "accumulateToolCalls_loop
     [(0, \<lparr>tc_index = 0, tc_id = Some (S ''c1''), tc_name = None, tc_arguments = []\<rparr>),
      (2, \<lparr>tc_index = 2, tc_id = Some (S ''c2''), tc_name = None, tc_arguments = []\<rparr>)]
     [fragment 0 [(S ''function'', JObj [(S ''name'', JStr (S ''run''))])]] =
     [(0, \<lparr>tc_index = 0, tc_id = Some (S ''c1''), tc_name = Some (S ''run''), tc_arguments = []\<rparr>),
      (2, \<lparr>tc_index = 2, tc_id = Some (S ''c2''), tc_name = None, tc_arguments = []\<rparr>)]"
  unfolding fragment_step
  by (simp_all add: mergeFragment_def fragment_def S_def)

lemma mixed_example:
  "accumulateToolCalls_loop []
     [fragment 0 [(S ''id'', JStr (S ''c1''))],
      fragment 2 [(S ''id'', JStr (S ''c2''))],
      JNull,
      fragment 0 [(S ''function'', JObj [(S ''name'', JStr (S ''run''))])],
      JObj [(S ''function'', JObj [(S ''arguments'', JStr (S ''x''))])]] =
     [(0, \<lparr>tc_index = 0, tc_id = Some (S ''c1''), tc_name = Some (S ''run''), tc_arguments = []\<rparr>),
      (2, \<lparr>tc_index = 2, tc_id = Some (S ''c2''), tc_name = None, tc_arguments = S ''x''\<rparr>)]"
  by (simp only: accumulate_Cons2 run_example_pending(1) mixed_example_steps skip_step unindexed_step)

section \<open>Lemmas: rendering examples\<close>

lemma render_example:
  "concatToolResultContent B
     [ResultText (S '' ok''), ResultData (S ''image/png'') bytes,
      ResultOther (JObj [(S ''value'', JStr (S ''done ''))])] =
   S ''ok[data:image/png;base64,'' @ base64 B bytes @ S '']done''"
  by (simp add: concatToolResultContent_def concatToolResultContent_loop_concat Let_def
      trim_def isWhiteSpace_def S_def)

lemma render_blank:
  "concatToolResultContent B [ResultText (S ''  '')] = S ''{}''"
  "concatToolResultContent B [] = S ''{}''"
  by (simp_all add: concatToolResultContent_def Let_def trim_def isWhiteSpace_def S_def)

lemma render_number:
  "JSON_stringify B (JNum (Finite 7)) = Some (JStr (S ''7'')) \<Longrightarrow>
   concatToolResultContent B [ResultText (S ''n=''), ResultOther (JNum (Finite 7))] = S ''n=7''"
  by (simp add: concatToolResultContent_def concatToolResultContent_loop_concat Let_def
      safeJson_def trim_def isWhiteSpace_def S_def)

lemma split_example:
  "toMiniMaxUserAndToolMessages B
     [ToolResultPart (S ''call_1'')
        [ResultText (S '' ok''), ResultData (S ''image/png'') bytes,
         ResultOther (JObj [(S ''value'', JStr (S ''done ''))])],
      TextPart (S ''hi''),
      ToolCallPart (S ''call_9'') (S ''run'') (JObj []),
      ToolResultPart (S ''call_2'') [ResultText (S ''  '')],
      ToolResultPart (S ''call_3'') []] =
   [UserMessage (S ''hi''),
    ToolMessage (S ''call_1'') (S ''ok[data:image/png;base64,'' @ base64 B bytes @ S '']done''),
    ToolMessage (S ''call_2'') (S ''{}''),
    ToolMessage (S ''call_3'') (S ''{}'')]"
proof -
  have t: "trim (S ''hi'') \<noteq> []"
    by (simp add: trim_def isWhiteSpace_def S_def)
  show ?thesis
    unfolding toMiniMaxUserAndToolMessages_unfold
    by (simp add: t render_example render_blank)
qed

lemma split_number_example:
  "JSON_stringify B (JNum (Finite 7)) = Some (JStr (S ''7'')) \<Longrightarrow>
   toMiniMaxUserAndToolMessages B
     [ToolResultPart (S ''call_4'') [ResultText (S ''n=''), ResultOther (JNum (Finite 7))]] =
   [ToolMessage (S ''call_4'') (S ''n=7'')]"
  unfolding toMiniMaxUserAndToolMessages_unfold
  by (simp add: render_number trim_Nil)

section \<open>Claims\<close>




text \<open>
  C2. Accumulating tool calls: the fragments of a delta's \<open>tool_calls\<close> array are
  taken one after the other, each on the map the earlier ones left. A fragment goes to
  the accumulator at its \<open>index\<close> when that is a non-negative integer, otherwise at the
  current size of the pending map, and no other accumulator changes; entries that are no
  objects are skipped; a non-empty id or name overwrites the stored one (last write
  wins), and argument text is appended to what is there. The fragments \<open>{index:0, id:"c1"}\<close>,
  \<open>{index:0, function:{name:"run"}}\<close>, \<open>{index:0, function:{arguments:"{\"a\":"}}\<close>,
  \<open>{index:0, function:{arguments:"1}"}}\<close>, then finish reason \<open>tool_calls\<close>, give
  exactly one invocation: id \<open>c1\<close>, name \<open>run\<close>, arguments \<open>{a:1}\<close> (what
  \<open>JSON.parse\<close> makes of the accumulated text), whether they come one per chunk or
  all in one delta.
\<close>

theorem tool_call_accumulation:
  \<open>(let i = (if isNonNegativeInteger (get (JObj kv) (S ''index''))
             then toIndex (get (JObj kv) (S ''index'')) else length pending);
        current = (case map_of pending i of Some c \<Rightarrow> c
                   | None \<Rightarrow> \<lparr>tc_index = i, tc_id = None, tc_name = None, tc_arguments = []\<rparr>)
    in map_of (accumulateToolCalls_loop pending [JObj kv]) i = Some (mergeFragment (JObj kv) current)
       \<and> (k \<noteq> i \<longrightarrow> map_of (accumulateToolCalls_loop pending [JObj kv]) k = map_of pending k))
   \<and> (\<not> isObjectLike v \<longrightarrow>
        accumulateToolCalls_loop pending (v # rest) = accumulateToolCalls_loop pending rest)
   \<and> tc_index (mergeFragment call cur) = tc_index cur
   \<and> tc_id (mergeFragment call cur) =
       (case get call (S ''id'') of
          JStr s \<Rightarrow> if length s > 0 then Some s else tc_id cur
        | _ \<Rightarrow> tc_id cur)
   \<and> tc_name (mergeFragment call cur) =
       (case get (get call (S ''function'')) (S ''name'') of
          JStr s \<Rightarrow> if length s > 0 then Some s else tc_name cur
        | _ \<Rightarrow> tc_name cur)
   \<and> tc_arguments (mergeFragment call cur) =
       tc_arguments cur @
       (case get (get call (S ''function'')) (S ''arguments'') of JStr s \<Rightarrow> s | _ \<Rightarrow> [])
   \<and> (JSON_parse B (S ''{"a":1}'') = Some (JObj [(S ''a'', JNum (Finite 1))]) \<longrightarrow>
        progress (streamResponse_chunks B ctor initial_state
          [live [fragment_choice (fragment 0 [(S ''id'', JStr (S ''c1''))])],
           live [fragment_choice (fragment 0 [(S ''function'', JObj [(S ''name'', JStr (S ''run''))])])],
           live [fragment_choice (fragment 0 [(S ''function'', JObj [(S ''arguments'', JStr (S ''{"a":''))])])],
           live [fragment_choice (fragment 0 [(S ''function'', JObj [(S ''arguments'', JStr (S ''1}''))])])],
           live [finish_choice (S ''tool_calls'')]])
        = [ResponseToolCall (S ''c1'') (S ''run'') (JObj [(S ''a'', JNum (Finite 1))])])
   \<and> accumulateToolCalls_loop pending (xs @ ys) =
       accumulateToolCalls_loop (accumulateToolCalls_loop pending xs) ys
   \<and> accumulateToolCalls_loop pending (JObj kv # rest) =
       accumulateToolCalls_loop (accumulateToolCalls_loop pending [JObj kv]) rest
   \<and> accumulateToolCalls_loop pending [JArr arr] =
       AList.update (length pending)
         (case map_of pending (length pending) of Some c \<Rightarrow> c
          | None \<Rightarrow> \<lparr>tc_index = length pending, tc_id = None, tc_name = None,
                      tc_arguments = []\<rparr>) pending
   \<and> pendingToolCalls (streamResponse_choice B ctor st c) =
       (case get (delta c) (S ''tool_calls'') of
          JArr calls \<Rightarrow> accumulateToolCalls_loop (pendingToolCalls st) calls
        | _ \<Rightarrow> pendingToolCalls st)
   \<and> accumulateToolCalls_loop []
         [fragment 0 [(S ''id'', JStr (S ''c1''))],
          fragment 2 [(S ''id'', JStr (S ''c2''))],
          JNull,
          fragment 0 [(S ''function'', JObj [(S ''name'', JStr (S ''run''))])],
          JObj [(S ''function'', JObj [(S ''arguments'', JStr (S ''x''))])]] =
       [(0, \<lparr>tc_index = 0, tc_id = Some (S ''c1''), tc_name = Some (S ''run''),
             tc_arguments = []\<rparr>),
        (2, \<lparr>tc_index = 2, tc_id = Some (S ''c2''), tc_name = None, tc_arguments = S ''x''\<rparr>)]
   \<and> (JSON_parse B (S ''{"a":1}'') = Some (JObj [(S ''a'', JNum (Finite 1))]) \<longrightarrow>
        progress (streamResponse_chunks B ctor initial_state
          [live [tool_calls_choice
                  [fragment 0 [(S ''id'', JStr (S ''c1''))],
                   fragment 0 [(S ''function'', JObj [(S ''name'', JStr (S ''run''))])],
                   fragment 0 [(S ''function'', JObj [(S ''arguments'', JStr (S ''{"a":''))])],
                   fragment 0 [(S ''function'', JObj [(S ''arguments'', JStr (S ''1}''))])]]
                  (JStr (S ''tool_calls''))]])
        = [ResponseToolCall (S ''c1'') (S ''run'') (JObj [(S ''a'', JNum (Finite 1))])])\<close>
proof -
  have upd: "(let i = (if isNonNegativeInteger (get (JObj kv) (S ''index''))
             then toIndex (get (JObj kv) (S ''index'')) else length pending);
        current = (case map_of pending i of Some c \<Rightarrow> c
                   | None \<Rightarrow> \<lparr>tc_index = i, tc_id = None, tc_name = None, tc_arguments = []\<rparr>)
    in map_of (accumulateToolCalls_loop pending [JObj kv]) i = Some (mergeFragment (JObj kv) current)
       \<and> (k \<noteq> i \<longrightarrow> map_of (accumulateToolCalls_loop pending [JObj kv]) k = map_of pending k))"
    by (simp add: Let_def update_conv' del: get.simps)
  have skip: "\<not> isObjectLike v \<longrightarrow>
        accumulateToolCalls_loop pending (v # rest) = accumulateToolCalls_loop pending rest"
    by simp
  have ex: \<open>JSON_parse B (S ''{"a":1}'') = Some (JObj [(S ''a'', JNum (Finite 1))]) \<longrightarrow>
        progress (streamResponse_chunks B ctor initial_state
          [live [fragment_choice (fragment 0 [(S ''id'', JStr (S ''c1''))])],
           live [fragment_choice (fragment 0 [(S ''function'', JObj [(S ''name'', JStr (S ''run''))])])],
           live [fragment_choice (fragment 0 [(S ''function'', JObj [(S ''arguments'', JStr (S ''{"a":''))])])],
           live [fragment_choice (fragment 0 [(S ''function'', JObj [(S ''arguments'', JStr (S ''1}''))])])],
           live [finish_choice (S ''tool_calls'')]])
        = [ResponseToolCall (S ''c1'') (S ''run'') (JObj [(S ''a'', JNum (Finite 1))])]\<close>
    unfolding run_example_stream by (simp add: parse_run_example)
  have arr: "accumulateToolCalls_loop pending [JArr arr] =
       AList.update (length pending)
         (case map_of pending (length pending) of Some c \<Rightarrow> c
          | None \<Rightarrow> \<lparr>tc_index = length pending, tc_id = None, tc_name = None,
                      tc_arguments = []\<rparr>) pending"
    by (simp add: mergeFragment_def Let_def)
  have every: "pendingToolCalls (streamResponse_choice B ctor st c) =
       (case get (delta c) (S ''tool_calls'') of
          JArr calls \<Rightarrow> accumulateToolCalls_loop (pendingToolCalls st) calls
        | _ \<Rightarrow> pendingToolCalls st)"
    by (simp add: choice_fields accumulateToolCalls_def)
  have one: \<open>JSON_parse B (S ''{"a":1}'') = Some (JObj [(S ''a'', JNum (Finite 1))]) \<longrightarrow>
        progress (streamResponse_chunks B ctor initial_state
          [live [tool_calls_choice
                  [fragment 0 [(S ''id'', JStr (S ''c1''))],
                   fragment 0 [(S ''function'', JObj [(S ''name'', JStr (S ''run''))])],
                   fragment 0 [(S ''function'', JObj [(S ''arguments'', JStr (S ''{"a":''))])],
                   fragment 0 [(S ''function'', JObj [(S ''arguments'', JStr (S ''1}''))])]]
                  (JStr (S ''tool_calls''))]])
        = [ResponseToolCall (S ''c1'') (S ''run'') (JObj [(S ''a'', JNum (Finite 1))])]\<close>
    by (simp add: live_def initial_state_def tool_calls_choice_effect run_example_one_delta
        run_example_report parse_run_example del: accumulateToolCalls_loop.simps)
  from upd skip ex mergeFragment_fields [of call cur]
    accumulate_append [of pending xs ys] accumulate_append [of pending "[JObj kv]" rest]
    arr every mixed_example one
  show ?thesis
    by simp
qed

theorem tool_call_accumulation_witness:
  \<open>map_of (accumulateToolCalls_loop
        [(0, \<lparr>tc_index = 0, tc_id = Some (S ''c1''), tc_name = None, tc_arguments = []\<rparr>)]
        [JObj [(S ''index'', JNum (Finite 1)), (S ''id'', JStr (S ''c2''))]]) 0
     = Some \<lparr>tc_index = 0, tc_id = Some (S ''c1''), tc_name = None, tc_arguments = []\<rparr>
   \<and> isObjectLike JNull = False
   \<and> accumulateToolCalls_loop [] [JNull] = []
   \<and> JSON_parse example_runtime (S ''{"a":1}'') = Some (JObj [(S ''a'', JNum (Finite 1))])
   \<and> progress (streamResponse_chunks example_runtime True initial_state
          [live [fragment_choice (fragment 0 [(S ''id'', JStr (S ''c1''))])],
           live [fragment_choice (fragment 0 [(S ''function'', JObj [(S ''name'', JStr (S ''run''))])])],
           live [fragment_choice (fragment 0 [(S ''function'', JObj [(S ''arguments'', JStr (S ''{"a":''))])])],
           live [fragment_choice (fragment 0 [(S ''function'', JObj [(S ''arguments'', JStr (S ''1}''))])])],
           live [finish_choice (S ''tool_calls'')]])
        = [ResponseToolCall (S ''c1'') (S ''run'') (JObj [(S ''a'', JNum (Finite 1))])]
   \<and> progress (streamResponse_chunks example_runtime True initial_state
          [live [tool_calls_choice
                  [fragment 0 [(S ''id'', JStr (S ''c1''))],
                   fragment 0 [(S ''function'', JObj [(S ''name'', JStr (S ''run''))])],
                   fragment 0 [(S ''function'', JObj [(S ''arguments'', JStr (S ''{"a":''))])],
                   fragment 0 [(S ''function'', JObj [(S ''arguments'', JStr (S ''1}''))])]]
                  (JStr (S ''tool_calls''))]])
        = [ResponseToolCall (S ''c1'') (S ''run'') (JObj [(S ''a'', JNum (Finite 1))])]\<close>
proof -
  have a: "isNonNegativeInteger (get (JObj [(S ''index'', JNum (Finite 1)), (S ''id'', JStr (S ''c2''))]) (S ''index''))"
    "toIndex (get (JObj [(S ''index'', JNum (Finite 1)), (S ''id'', JStr (S ''c2''))]) (S ''index'')) = 1"
    by simp_all
  have b: "\<not> isObjectLike JNull"
    by simp
  have c: \<open>JSON_parse example_runtime (S ''{"a":1}'') = Some (JObj [(S ''a'', JNum (Finite 1))])\<close>
    by (simp add: example_runtime_def)
  have d: "(0::nat) \<noteq> 1"
    by simp
  note t1 = tool_call_accumulation
      [of "[(S ''index'', JNum (Finite 1)), (S ''id'', JStr (S ''c2''))]"
          "[(0, \<lparr>tc_index = 0, tc_id = Some (S ''c1''), tc_name = None, tc_arguments = []\<rparr>)]"
          0 JNull "[]" _ _ example_runtime True]
  note t2 = tool_call_accumulation [of _ "[]" _ JNull "[]" _ _ example_runtime True]
  from t1 a d have
    "map_of (accumulateToolCalls_loop
        [(0, \<lparr>tc_index = 0, tc_id = Some (S ''c1''), tc_name = None, tc_arguments = []\<rparr>)]
        [JObj [(S ''index'', JNum (Finite 1)), (S ''id'', JStr (S ''c2''))]]) 0
     = Some \<lparr>tc_index = 0, tc_id = Some (S ''c1''), tc_name = None, tc_arguments = []\<rparr>"
    by (simp add: Let_def del: accumulateToolCalls_loop.simps get.simps)
  moreover from t2 b have "accumulateToolCalls_loop [] [JNull] = []"
    by simp
  moreover from t1 c have \<open>progress (streamResponse_chunks example_runtime True initial_state
          [live [fragment_choice (fragment 0 [(S ''id'', JStr (S ''c1''))])],
           live [fragment_choice (fragment 0 [(S ''function'', JObj [(S ''name'', JStr (S ''run''))])])],
           live [fragment_choice (fragment 0 [(S ''function'', JObj [(S ''arguments'', JStr (S ''{"a":''))])])],
           live [fragment_choice (fragment 0 [(S ''function'', JObj [(S ''arguments'', JStr (S ''1}''))])])],
           live [finish_choice (S ''tool_calls'')]])
        = [ResponseToolCall (S ''c1'') (S ''run'') (JObj [(S ''a'', JNum (Finite 1))])]\<close>
    by blast
  moreover from t1 c have \<open>progress (streamResponse_chunks example_runtime True initial_state
          [live [tool_calls_choice
                  [fragment 0 [(S ''id'', JStr (S ''c1''))],
                   fragment 0 [(S ''function'', JObj [(S ''name'', JStr (S ''run''))])],
                   fragment 0 [(S ''function'', JObj [(S ''arguments'', JStr (S ''{"a":''))])],
                   fragment 0 [(S ''function'', JObj [(S ''arguments'', JStr (S ''1}''))])]]
                  (JStr (S ''tool_calls''))]])
        = [ResponseToolCall (S ''c1'') (S ''run'') (JObj [(S ''a'', JNum (Finite 1))])]\<close>
    by blast
  ultimately show ?thesis
    using b c by simp
qed

text \<open>
  C3. Tool calls are emitted at most once per response. \<open>reportToolCalls\<close> emits the
  accumulated calls that have both a non-empty id and a non-empty name, in ascending
  order of index, and drops the others. The first choice with finish reason
  \<open>tool_calls\<close> or \<open>function_call\<close> reports the calls accumulated up to and
  including that choice; whatever follows it in the response (any choice of any chunk,
  a further finish signal among them) adds no tool call.
\<close>

theorem tool_calls_emitted_once:
  "reportToolCalls B pending =
      map (invocation B) (filter completeCall (sort_key tc_index (map snd pending)))
   \<and> sorted (map tc_index (sort_key tc_index (map snd pending)))
   \<and> (\<not> toolCallsEmitted st \<and> isToolCallFinish c \<longrightarrow>
        filter isResponseToolCall (progress (streamResponse_choice B ctor st c)) =
          filter isResponseToolCall (progress st) @
          reportToolCalls B (accumulateToolCalls c (pendingToolCalls st))
        \<and> toolCallsEmitted (streamResponse_choice B ctor st c))
   \<and> (\<not> toolCallsEmitted st \<and> list_all (\<lambda>c. \<not> isToolCallFinish c) pre \<and> isToolCallFinish c \<longrightarrow>
        filter isResponseToolCall (progress (streamResponse_choices B ctor st (pre @ c # post))) =
          filter isResponseToolCall (progress st) @
          reportToolCalls B (pendingToolCalls (streamResponse_choices B ctor st (pre @ [c]))))
   \<and> (toolCallsEmitted st \<longrightarrow>
        filter isResponseToolCall (progress (streamResponse_chunks B ctor st stream)) =
          filter isResponseToolCall (progress st)
        \<and> toolCallsEmitted (streamResponse_chunks B ctor st stream))
   \<and> streamResponse_chunks B ctor st stream =
        streamResponse_choices B ctor st
          (concat (map (\<lambda>x. choices (snd x)) (takeWhile (\<lambda>x. \<not> fst x) stream)))"
proof -
  have srt: "sorted (map tc_index (sort_key tc_index (map snd pending)))"
    by (rule sorted_sort_key)
  have one: "\<not> toolCallsEmitted st \<and> isToolCallFinish c \<longrightarrow>
        filter isResponseToolCall (progress (streamResponse_choice B ctor st c)) =
          filter isResponseToolCall (progress st) @
          reportToolCalls B (accumulateToolCalls c (pendingToolCalls st))
        \<and> toolCallsEmitted (streamResponse_choice B ctor st c)"
    by (simp add: choice_fields)
  have once: "\<not> toolCallsEmitted st \<and> list_all (\<lambda>c. \<not> isToolCallFinish c) pre \<and> isToolCallFinish c \<longrightarrow>
        filter isResponseToolCall (progress (streamResponse_choices B ctor st (pre @ c # post))) =
          filter isResponseToolCall (progress st) @
          reportToolCalls B (pendingToolCalls (streamResponse_choices B ctor st (pre @ [c])))"
    using emitted_once [of st pre c B ctor post] by blast
  have after: "toolCallsEmitted st \<longrightarrow>
        filter isResponseToolCall (progress (streamResponse_chunks B ctor st stream)) =
          filter isResponseToolCall (progress st)
        \<and> toolCallsEmitted (streamResponse_chunks B ctor st stream)"
    using chunks_emitted [of st B ctor stream] by blast
  from reportToolCalls_eq [of B pending] srt one once after chunks_flatten [of B ctor st stream]
  show ?thesis
    by blast
qed

theorem tool_calls_emitted_once_witness:
  "\<forall>B ctor.
     toolCallsEmitted initial_state = False
     \<and> list_all (\<lambda>c. \<not> isToolCallFinish c)
         [fragment_choice (fragment 3 [(S ''id'', JStr (S ''c2'')), (S ''function'', JObj [(S ''name'', JStr (S ''b''))])]),
          fragment_choice (fragment 0 [(S ''id'', JStr (S ''c1'')), (S ''function'', JObj [(S ''name'', JStr (S ''a''))])]),
          fragment_choice (fragment 2 [(S ''function'', JObj [(S ''name'', JStr (S ''c''))])])]
     \<and> isToolCallFinish (finish_choice (S ''tool_calls''))
     \<and> filter isResponseToolCall (progress (streamResponse_choices B ctor initial_state
         ([fragment_choice (fragment 3 [(S ''id'', JStr (S ''c2'')), (S ''function'', JObj [(S ''name'', JStr (S ''b''))])]),
           fragment_choice (fragment 0 [(S ''id'', JStr (S ''c1'')), (S ''function'', JObj [(S ''name'', JStr (S ''a''))])]),
           fragment_choice (fragment 2 [(S ''function'', JObj [(S ''name'', JStr (S ''c''))])])]
          @ finish_choice (S ''tool_calls'')
          # [finish_choice (S ''function_call''), finish_choice (S ''tool_calls'')])))
       = [ResponseToolCall (S ''c1'') (S ''a'') (JObj []), ResponseToolCall (S ''c2'') (S ''b'') (JObj [])]
     \<and> toolCallsEmitted (streamResponse_choice B ctor initial_state (finish_choice (S ''tool_calls'')))
     \<and> toolCallsEmitted
          \<lparr>reasoningBuffer = [], pendingToolCalls = [], toolCallsEmitted = True,
           progress = [ResponseToolCall (S ''c1'') (S ''a'') (JObj [])]\<rparr>
     \<and> filter isResponseToolCall (progress (streamResponse_chunks B ctor
          \<lparr>reasoningBuffer = [], pendingToolCalls = [], toolCallsEmitted = True,
           progress = [ResponseToolCall (S ''c1'') (S ''a'') (JObj [])]\<rparr>
          [live [finish_choice (S ''tool_calls'')], live [finish_choice (S ''function_call'')]]))
       = [ResponseToolCall (S ''c1'') (S ''a'') (JObj [])]"
proof (intro allI)
  fix B ctor
  let ?pre = "[fragment_choice (fragment 3 [(S ''id'', JStr (S ''c2'')), (S ''function'', JObj [(S ''name'', JStr (S ''b''))])]),
          fragment_choice (fragment 0 [(S ''id'', JStr (S ''c1'')), (S ''function'', JObj [(S ''name'', JStr (S ''a''))])]),
          fragment_choice (fragment 2 [(S ''function'', JObj [(S ''name'', JStr (S ''c''))])])]"
  let ?c = "finish_choice (S ''tool_calls'')"
  let ?post = "[finish_choice (S ''function_call''), finish_choice (S ''tool_calls'')]"
  let ?st = "\<lparr>reasoningBuffer = [], pendingToolCalls = [], toolCallsEmitted = True,
           progress = [ResponseToolCall (S ''c1'') (S ''a'') (JObj [])]\<rparr>"
  have a: "\<not> toolCallsEmitted initial_state"
    by (simp add: initial_state_def)
  have b: "list_all (\<lambda>c. \<not> isToolCallFinish c) ?pre"
    by (simp add: fragment_choice_parts)
  have c: "isToolCallFinish ?c"
    by (simp add: finish_choice_parts)
  have d: "toolCallsEmitted ?st"
    by simp
  have e: "progress initial_state = []"
    by (simp add: initial_state_def)
  note t1 = tool_calls_emitted_once [of B _ initial_state ?c ctor ?pre ?post]
  note t2 = tool_calls_emitted_once [of B _ ?st _ ctor _ _
      "[live [finish_choice (S ''tool_calls'')], live [finish_choice (S ''function_call'')]]"]
  from t1 a b c have
    "filter isResponseToolCall (progress (streamResponse_choices B ctor initial_state (?pre @ ?c # ?post))) =
       filter isResponseToolCall (progress initial_state) @
       reportToolCalls B (pendingToolCalls (streamResponse_choices B ctor initial_state (?pre @ [?c])))"
    by blast
  then have r1: "filter isResponseToolCall (progress (streamResponse_choices B ctor initial_state (?pre @ ?c # ?post))) =
      [ResponseToolCall (S ''c1'') (S ''a'') (JObj []), ResponseToolCall (S ''c2'') (S ''b'') (JObj [])]"
    by (simp only: unordered_example_state unordered_example_report e filter.simps append_Nil)
  from t1 a c have r2: "toolCallsEmitted (streamResponse_choice B ctor initial_state ?c)"
    by blast
  from t2 d have r3: "filter isResponseToolCall (progress (streamResponse_chunks B ctor ?st
          [live [finish_choice (S ''tool_calls'')], live [finish_choice (S ''function_call'')]])) =
       filter isResponseToolCall (progress ?st)"
    by blast
  from a b c d r1 r2 r3 show "toolCallsEmitted initial_state = False
     \<and> list_all (\<lambda>c. \<not> isToolCallFinish c) ?pre
     \<and> isToolCallFinish ?c
     \<and> filter isResponseToolCall (progress (streamResponse_choices B ctor initial_state
         (?pre @ ?c # ?post)))
       = [ResponseToolCall (S ''c1'') (S ''a'') (JObj []), ResponseToolCall (S ''c2'') (S ''b'') (JObj [])]
     \<and> toolCallsEmitted (streamResponse_choice B ctor initial_state ?c)
     \<and> toolCallsEmitted ?st
     \<and> filter isResponseToolCall (progress (streamResponse_chunks B ctor ?st
          [live [finish_choice (S ''tool_calls'')], live [finish_choice (S ''function_call'')]]))
       = [ResponseToolCall (S ''c1'') (S ''a'') (JObj [])]"
    by simp
qed

text \<open>
  C4. Finalising tool-call arguments is total: the accumulated string is trimmed first;
  empty after trimming gives \<open>{}\<close>; text that parses to an object gives that object;
  text that parses to anything else (number, string, boolean, null, array) gives
  \<open>{value: parsed}\<close>; text that fails to parse gives \<open>{rawArguments: raw}\<close> with the
  untrimmed string. The result is always an object, and \<open>reportToolCalls\<close> reports
  one invocation per call with id and name, whatever its argument text.
\<close>

theorem parseToolArguments_total:
  "(trim raw = [] \<longrightarrow> parseToolArguments B raw = JObj [])
   \<and> (trim raw \<noteq> [] \<and> JSON_parse B (trim raw) = Some (JObj kv) \<longrightarrow>
        parseToolArguments B raw = JObj kv)
   \<and> (trim raw \<noteq> [] \<and> JSON_parse B (trim raw) = Some v \<and> \<not> isPlainObject v \<longrightarrow>
        parseToolArguments B raw = JObj [(S ''value'', v)])
   \<and> (trim raw \<noteq> [] \<and> JSON_parse B (trim raw) = None \<longrightarrow>
        parseToolArguments B raw = JObj [(S ''rawArguments'', JStr raw)])
   \<and> isPlainObject (parseToolArguments B raw)
   \<and> length (reportToolCalls B pending) = length (filter completeCall (map snd pending))"
proof -
  have "parseToolArguments B raw = JObj [(S ''value'', v)]"
    if "trim raw \<noteq> []" "JSON_parse B (trim raw) = Some v" "\<not> isPlainObject v"
    using that by (cases v) (simp_all add: parseToolArguments_def)
  moreover have "isPlainObject (parseToolArguments B raw)"
    by (simp add: parseToolArguments_def Let_def split: option.splits jsval.splits)
  moreover have "length (reportToolCalls B pending) = length (filter completeCall (map snd pending))"
    by (simp add: reportToolCalls_def reportToolCalls_loop_filter filter_sort)
  ultimately show ?thesis
    by (simp add: parseToolArguments_def)
qed

theorem parseToolArguments_total_witness:
  \<open>trim (S ''  '') = [] \<and> parseToolArguments example_runtime (S ''  '') = JObj []
   \<and> parseToolArguments example_runtime [] = JObj []
   \<and> trim (S '' {"a":1} '') \<noteq> []
   \<and> JSON_parse example_runtime (trim (S '' {"a":1} '')) = Some (JObj [(S ''a'', JNum (Finite 1))])
   \<and> parseToolArguments example_runtime (S '' {"a":1} '') = JObj [(S ''a'', JNum (Finite 1))]
   \<and> JSON_parse example_runtime (trim (S ''42'')) = Some (JNum (Finite 42))
   \<and> parseToolArguments example_runtime (S ''42'') = JObj [(S ''value'', JNum (Finite 42))]
   \<and> JSON_parse example_runtime (trim (S ''not json'')) = None
   \<and> parseToolArguments example_runtime (S ''not json'') = JObj [(S ''rawArguments'', JStr (S ''not json''))]\<close>
proof -
  have t1: "trim (S ''  '') = []" "trim [] = []"
    by (simp_all add: trim_def S_def isWhiteSpace_def)
  have t2: \<open>trim (S '' {"a":1} '') = S ''{"a":1}''\<close>
    by (simp add: trim_def S_def isWhiteSpace_def)
  have t3: "trim (S ''42'') = S ''42''"
    by (simp add: trim_def S_def isWhiteSpace_def)
  have t4: "trim (S ''not json'') = S ''not json''"
    by (simp add: trim_def S_def isWhiteSpace_def)
  have ne: \<open>S ''{"a":1}'' \<noteq> []\<close> \<open>S ''42'' \<noteq> []\<close> \<open>S ''not json'' \<noteq> []\<close>
    by (simp_all add: S_def)
  have p2: \<open>JSON_parse example_runtime (S ''{"a":1}'') = Some (JObj [(S ''a'', JNum (Finite 1))])\<close>
    by (simp add: example_runtime_def)
  have p3: "JSON_parse example_runtime (S ''42'') = Some (JNum (Finite 42))"
    by (simp add: example_runtime_def S_def)
  have p4: "JSON_parse example_runtime (S ''not json'') = None"
    by (simp add: example_runtime_def S_def)
  show ?thesis
    using parseToolArguments_total [of "S ''  ''" example_runtime]
      parseToolArguments_total [of "[]" example_runtime]
      parseToolArguments_total [of \<open>S '' {"a":1} ''\<close> example_runtime "[(S ''a'', JNum (Finite 1))]"]
      parseToolArguments_total [of "S ''42''" example_runtime _ "JNum (Finite 42)"]
      parseToolArguments_total [of "S ''not json''" example_runtime]
    by (simp add: t1 t2 t3 t4 ne p2 p3 p4)
qed

text \<open>
  C5. Splitting a user-role message: exactly one tool wire message per tool result part,
  in the original order, with \<open>tool_call_id\<close> the part's \<open>callId\<close>; its content is the
  renderings of the result's elements concatenated in order without separator and
  trimmed, or the literal \<open>{}\<close> when that is empty; a user wire message (carrying the
  concatenated text parts) is emitted if and only if the concatenated text is non-empty
  after trimming or there is no tool message. An element renders as follows: a text
  part as its value, a data part as \<open>[data:<mime>;base64,<encoded bytes>]\<close>, any other
  object with a string \<open>value\<close> as that string, anything else as the string
  \<open>JSON.stringify\<close> gives (or \<open>String\<close> of it when that throws). So the results
  \<open>[" ok", png data, {value:"done "}]\<close>, \<open>["  "]\<close> and \<open>[]\<close> give the contents
  \<open>ok[data:image/png;base64,...]done\<close>, \<open>{}\<close> and \<open>{}\<close>, after the user message
  \<open>hi\<close>; and \<open>["n=", 7]\<close> gives \<open>n=7\<close>.
\<close>

theorem user_turn_split:
  "toMiniMaxUserAndToolMessages B parts =
     (if 0 < length (trim (concat (text_values parts))) \<or> length (tool_results parts) = 0
      then [UserMessage (concat (text_values parts))] else [])
     @ map (\<lambda>(callId, content). ToolMessage callId
             (if 0 < length (trim (concat (map (renderResultPart B) content)))
              then trim (concat (map (renderResultPart B) content)) else S ''{}''))
         (tool_results parts)
   \<and> map (\<lambda>m. case m of ToolMessage callId content \<Rightarrow> callId | _ \<Rightarrow> [])
         (filter isToolMessage (toMiniMaxUserAndToolMessages B parts))
       = map fst (tool_results parts)
   \<and> renderResultPart B (ResultText t) = t
   \<and> renderResultPart B (ResultData mimeType bytes) =
       S ''[data:'' @ mimeType @ S '';base64,'' @ base64 B bytes @ S '']''
   \<and> renderResultPart B (ResultOther v) =
       (case get v (S ''value'') of
          JStr s \<Rightarrow> s
        | _ \<Rightarrow> ToString B (case JSON_stringify B v of
                            Some r \<Rightarrow> r
                          | None \<Rightarrow> JStr (ToString B v)))
   \<and> toMiniMaxUserAndToolMessages B
         [ToolResultPart (S ''call_1'')
            [ResultText (S '' ok''), ResultData (S ''image/png'') bytes,
             ResultOther (JObj [(S ''value'', JStr (S ''done ''))])],
          TextPart (S ''hi''),
          ToolCallPart (S ''call_9'') (S ''run'') (JObj []),
          ToolResultPart (S ''call_2'') [ResultText (S ''  '')],
          ToolResultPart (S ''call_3'') []] =
       [UserMessage (S ''hi''),
        ToolMessage (S ''call_1'')
          (S ''ok[data:image/png;base64,'' @ base64 B bytes @ S '']done''),
        ToolMessage (S ''call_2'') (S ''{}''),
        ToolMessage (S ''call_3'') (S ''{}'')]
   \<and> (JSON_stringify B (JNum (Finite 7)) = Some (JStr (S ''7'')) \<longrightarrow>
        toMiniMaxUserAndToolMessages B
          [ToolResultPart (S ''call_4'') [ResultText (S ''n=''), ResultOther (JNum (Finite 7))]] =
        [ToolMessage (S ''call_4'') (S ''n=7'')])"
proof -
  let ?f = "\<lambda>(callId, content). ToolMessage callId (concatToolResultContent B content)"
  note out = toMiniMaxUserAndToolMessages_unfold [of B parts]
  have f: "?f = (\<lambda>(callId, content). ToolMessage callId
             (if 0 < length (trim (concat (map (renderResultPart B) content)))
              then trim (concat (map (renderResultPart B) content)) else S ''{}''))"
    by (simp add: concatToolResultContent_def concatToolResultContent_loop_concat Let_def)
  have flt: "filter isToolMessage (map ?f xs) = map ?f xs" for xs
    by (induction xs) auto
  have "map (\<lambda>m. case m of ToolMessage callId content \<Rightarrow> callId | _ \<Rightarrow> [])
         (filter isToolMessage (toMiniMaxUserAndToolMessages B parts)) = map fst (tool_results parts)"
    unfolding out by (auto simp: flt case_prod_beta)
  with out f have general: "toMiniMaxUserAndToolMessages B parts =
     (if 0 < length (trim (concat (text_values parts))) \<or> length (tool_results parts) = 0
      then [UserMessage (concat (text_values parts))] else [])
     @ map (\<lambda>(callId, content). ToolMessage callId
             (if 0 < length (trim (concat (map (renderResultPart B) content)))
              then trim (concat (map (renderResultPart B) content)) else S ''{}''))
         (tool_results parts)
   \<and> map (\<lambda>m. case m of ToolMessage callId content \<Rightarrow> callId | _ \<Rightarrow> [])
         (filter isToolMessage (toMiniMaxUserAndToolMessages B parts))
       = map fst (tool_results parts)"
    by simp
  have render: "renderResultPart B (ResultText t) = t"
    "renderResultPart B (ResultData mimeType bytes) =
       S ''[data:'' @ mimeType @ S '';base64,'' @ base64 B bytes @ S '']''"
    "renderResultPart B (ResultOther v) =
       (case get v (S ''value'') of
          JStr s \<Rightarrow> s
        | _ \<Rightarrow> ToString B (case JSON_stringify B v of
                            Some r \<Rightarrow> r
                          | None \<Rightarrow> JStr (ToString B v)))"
    by (simp_all add: safeJson_def cong: jsval.case_cong)
  have number: "JSON_stringify B (JNum (Finite 7)) = Some (JStr (S ''7'')) \<longrightarrow>
        toMiniMaxUserAndToolMessages B
          [ToolResultPart (S ''call_4'') [ResultText (S ''n=''), ResultOther (JNum (Finite 7))]] =
        [ToolMessage (S ''call_4'') (S ''n=7'')]"
    using split_number_example [of B] by blast
  from general render split_example [of B bytes] number show ?thesis
    by blast
qed

theorem user_turn_split_witness:
  "JSON_stringify example_runtime (JNum (Finite 7)) = Some (JStr (S ''7''))
   \<and> toMiniMaxUserAndToolMessages example_runtime
        [ToolResultPart (S ''call_4'') [ResultText (S ''n=''), ResultOther (JNum (Finite 7))]] =
      [ToolMessage (S ''call_4'') (S ''n=7'')]
   \<and> toMiniMaxUserAndToolMessages example_runtime
         [ToolResultPart (S ''call_1'')
            [ResultText (S '' ok''), ResultData (S ''image/png'') [],
             ResultOther (JObj [(S ''value'', JStr (S ''done ''))])],
          TextPart (S ''hi''),
          ToolCallPart (S ''call_9'') (S ''run'') (JObj []),
          ToolResultPart (S ''call_2'') [ResultText (S ''  '')],
          ToolResultPart (S ''call_3'') []] =
       [UserMessage (S ''hi''),
        ToolMessage (S ''call_1'') (S ''ok[data:image/png;base64,]done''),
        ToolMessage (S ''call_2'') (S ''{}''),
        ToolMessage (S ''call_3'') (S ''{}'')]"
proof -
  have a: "JSON_stringify example_runtime (JNum (Finite 7)) = Some (JStr (S ''7''))"
    by (simp add: example_runtime_def)
  have b: "base64 example_runtime [] = []"
    by (simp add: example_runtime_def)
  have c: "S ''ok[data:image/png;base64,'' @ [] @ S '']done'' = S ''ok[data:image/png;base64,]done''"
    by (simp add: S_def)
  note t = user_turn_split [of example_runtime _ _ _ "[]"]
  from t a have "toMiniMaxUserAndToolMessages example_runtime
        [ToolResultPart (S ''call_4'') [ResultText (S ''n=''), ResultOther (JNum (Finite 7))]] =
      [ToolMessage (S ''call_4'') (S ''n=7'')]"
    by blast
  moreover from t have "toMiniMaxUserAndToolMessages example_runtime
         [ToolResultPart (S ''call_1'')
            [ResultText (S '' ok''), ResultData (S ''image/png'') [],
             ResultOther (JObj [(S ''value'', JStr (S ''done ''))])],
          TextPart (S ''hi''),
          ToolCallPart (S ''call_9'') (S ''run'') (JObj []),
          ToolResultPart (S ''call_2'') [ResultText (S ''  '')],
          ToolResultPart (S ''call_3'') []] =
       [UserMessage (S ''hi''),
        ToolMessage (S ''call_1'')
          (S ''ok[data:image/png;base64,'' @ base64 example_runtime [] @ S '']done''),
        ToolMessage (S ''call_2'') (S ''{}''),
        ToolMessage (S ''call_3'') (S ''{}'')]"
    by blast
  ultimately show ?thesis
    using a by (simp only: b c simp_thms)
qed

text \<open>
  C6, as the claim states its second half: a turn whose text is only whitespace and that
  has no tool result would give one user message with the empty string as content. For
  the single text part \<open>" "\<close> the content is \<open>" "\<close>.
\<close>

theorem user_turn_blank_text_counterexample:
  "\<forall>B. tool_results [TextPart (S '' '')] = []
     \<and> list_all (list_all isWhiteSpace) (text_values [TextPart (S '' '')])
     \<and> toMiniMaxUserAndToolMessages B [TextPart (S '' '')] = [UserMessage (S '' '')]
     \<and> toMiniMaxUserAndToolMessages B [TextPart (S '' '')] \<noteq> [UserMessage []]"
  by (simp add: toMiniMaxUserAndToolMessages_def concatTextParts_def S_def trim_def
      isWhiteSpace_def)

text \<open>
  C6, amended. A user turn that consists only of tool results (at least one) emits no
  user wire message. A user turn whose text parts are all whitespace and that has no
  tool result emits exactly one wire message: a user message whose content is the
  concatenated text, unchanged; that content trims to the empty string.
\<close>

theorem user_turn_tool_only_or_blank:
  "(parts \<noteq> [] \<and> list_all isToolResultPart parts \<longrightarrow>
      filter isUserMessage (toMiniMaxUserAndToolMessages B parts) = [])
   \<and> (tool_results parts = [] \<and> list_all (list_all isWhiteSpace) (text_values parts) \<longrightarrow>
      toMiniMaxUserAndToolMessages B parts = [UserMessage (concat (text_values parts))]
      \<and> trim (concat (text_values parts)) = [])"
proof -
  note out = toMiniMaxUserAndToolMessages_unfold [of B parts]
  have "filter isUserMessage (toMiniMaxUserAndToolMessages B parts) = []"
    if "parts \<noteq> []" "list_all isToolResultPart parts"
  proof -
    from that tool_results_only [of parts]
    have "text_values parts = []" "tool_results parts \<noteq> []"
      by auto
    then show ?thesis
      unfolding out by (auto simp: trim_Nil filter_empty_conv)
  qed
  moreover have "toMiniMaxUserAndToolMessages B parts = [UserMessage (concat (text_values parts))]"
    if "tool_results parts = []"
    unfolding out using that by simp
  moreover have "trim (concat (text_values parts)) = []"
    if "list_all (list_all isWhiteSpace) (text_values parts)"
    using that by (intro trim_all_whitespace) (auto simp: list_all_iff)
  ultimately show ?thesis
    by blast
qed

theorem user_turn_tool_only_or_blank_witness:
  "\<forall>B. [ToolResultPart (S ''call_1'') [ResultText (S ''ok'')]] \<noteq> []
     \<and> list_all isToolResultPart [ToolResultPart (S ''call_1'') [ResultText (S ''ok'')]]
     \<and> filter isUserMessage
         (toMiniMaxUserAndToolMessages B [ToolResultPart (S ''call_1'') [ResultText (S ''ok'')]]) = []
     \<and> tool_results [TextPart (S '' ''), TextPart [0x09, 0x3000]] = []
     \<and> list_all (list_all isWhiteSpace) (text_values [TextPart (S '' ''), TextPart [0x09, 0x3000]])
     \<and> toMiniMaxUserAndToolMessages B [TextPart (S '' ''), TextPart [0x09, 0x3000]]
         = [UserMessage [0x20, 0x09, 0x3000]]
     \<and> trim [0x20, 0x09, 0x3000] = []"
proof -
  have a: "list_all isToolResultPart [ToolResultPart (S ''call_1'') [ResultText (S ''ok'')]]"
    by simp
  have b: "tool_results [TextPart (S '' ''), TextPart [0x09, 0x3000]] = []"
    by simp
  have c: "list_all (list_all isWhiteSpace) (text_values [TextPart (S '' ''), TextPart [0x09, 0x3000]])"
    by (simp add: S_def isWhiteSpace_def)
  show ?thesis
    using a b c
      user_turn_tool_only_or_blank [of "[ToolResultPart (S ''call_1'') [ResultText (S ''ok'')]]"]
      user_turn_tool_only_or_blank [of "[TextPart (S '' ''), TextPart [0x09, 0x3000]]"]
    by (simp add: S_def)
qed

text \<open>
  C7. Normalising a tool's parameter schema: a schema that is no plain object (absent,
  a primitive or a list) is replaced by \<open>{type:"object", properties:{}}\<close>; a plain
  object keeps its properties, gets \<open>type:"object"\<close> only when it has no \<open>type\<close> key,
  and gets \<open>properties:{}\<close> only when its type is then \<open>"object"\<close> and it has no
  \<open>properties\<close> key. So \<open>{type:"string"}\<close> is unchanged, and both \<open>[]\<close> and \<open>{}\<close>
  become \<open>{type:"object", properties:{}}\<close>. Every tool that \<open>convertTools\<close> keeps
  carries the normalised schema.
\<close>

theorem normalizeToolParameters_cases:
  "normalizeToolParameters JUndefined = fallback
   \<and> normalizeToolParameters JNull = fallback
   \<and> normalizeToolParameters (JBool b) = fallback
   \<and> normalizeToolParameters (JNum n) = fallback
   \<and> normalizeToolParameters (JStr s) = fallback
   \<and> normalizeToolParameters (JArr xs) = fallback
   \<and> normalizeToolParameters (JObj kv) =
       JObj (kv
         @ (if has kv (S ''type'') then [] else [(S ''type'', JStr (S ''object''))])
         @ (if (if has kv (S ''type'') then get (JObj kv) (S ''type'') = JStr (S ''object'') else True)
               \<and> \<not> has kv (S ''properties'')
            then [(S ''properties'', JObj [])] else []))
   \<and> normalizeToolParameters (JObj [(S ''type'', JStr (S ''string''))])
       = JObj [(S ''type'', JStr (S ''string''))]
   \<and> normalizeToolParameters (JArr [])
       = JObj [(S ''type'', JStr (S ''object'')), (S ''properties'', JObj [])]
   \<and> normalizeToolParameters (JObj [])
       = JObj [(S ''type'', JStr (S ''object'')), (S ''properties'', JObj [])]
   \<and> convertTools None = None
   \<and> convertTools (Some ts) =
       (if length (filter named ts) = 0 then None else Some (map convertTool (filter named ts)))
   \<and> map fn_parameters (map convertTool (filter named ts)) =
       map (\<lambda>t. normalizeToolParameters (inputSchema t)) (filter named ts)"
proof -
  have obj: "normalizeToolParameters (JObj kv) =
       JObj (kv
         @ (if has kv (S ''type'') then [] else [(S ''type'', JStr (S ''object''))])
         @ (if (if has kv (S ''type'') then get (JObj kv) (S ''type'') = JStr (S ''object'') else True)
               \<and> \<not> has kv (S ''properties'')
            then [(S ''properties'', JObj [])] else []))" for kv
  proof (cases "has kv (S ''type'')")
    case True
    then show ?thesis
      by (auto simp: has_def set_prop_def update_absent)
  next
    case False
    then have t: "map_of kv (S ''type'') = None"
      by (simp add: has_def)
    show ?thesis
      using False t type_neq_properties
      by (auto simp: has_def set_prop_def update_absent map_of_append_absent map_add_def
               split: option.splits)
  qed
  have ex1: "normalizeToolParameters (JObj [(S ''type'', JStr (S ''string''))])
      = JObj [(S ''type'', JStr (S ''string''))]"
    by (simp add: has_def S_def)
  have ex3: "normalizeToolParameters (JObj [])
      = JObj [(S ''type'', JStr (S ''object'')), (S ''properties'', JObj [])]"
    by (subst obj) (simp add: has_def)
  have ct: "convertTools (Some ts) =
       (if length (filter named ts) = 0 then None else Some (map convertTool (filter named ts)))"
    by (auto simp: convertTools_def convertTools_loop_map Let_def)
  have ps: "map fn_parameters (map convertTool (filter named ts)) =
       map (\<lambda>t. normalizeToolParameters (inputSchema t)) (filter named ts)"
    by (simp add: convertTool_def)
  have "convertTools None = None"
    by (simp add: convertTools_def)
  with obj ex1 ex3 ct ps show ?thesis
    by (simp add: fallback_def)
qed

text \<open>
  C8. When the \<open>apiKey\<close> option is absent or blank after trimming, \<open>streamChat\<close>
  fails with the error of code \<open>NO_API_KEY\<close> before any request reaches the
  transport, and yields no chunk. With a key, the transport receives one request.
\<close>

theorem streamChat_blank_key:
  "(blankApiKey options \<longrightarrow>
      streamChat B transport model messages options cancelled =
        \<lparr>requests = [], yielded = [],
         failure = Some (Inr \<lparr>message = S ''API key is required'', code = S ''NO_API_KEY'',
                              statusCode = Some (Finite 401)\<rparr>)\<rparr>)
   \<and> (\<not> blankApiKey options \<longrightarrow>
      length (requests (streamChat B transport model messages options cancelled)) = 1)"
  by (auto simp: blankApiKey_def streamChat_def Let_def split: option.splits response.splits prod.splits)

theorem streamChat_blank_key_witness:
  "\<forall>B transport model messages cancelled.
     blankApiKey None
     \<and> requests (streamChat B transport model messages None cancelled) = []
     \<and> yielded (streamChat B transport model messages None cancelled) = []
     \<and> failure (streamChat B transport model messages None cancelled)
         = Some (Inr \<lparr>message = S ''API key is required'', code = S ''NO_API_KEY'',
                      statusCode = Some (Finite 401)\<rparr>)
     \<and> blankApiKey (Some \<lparr>temperature = None, maxTokens = None, apiKey = Some (S ''   ''),
           tools = None, toolChoice = None, reasoningSplit = None\<rparr>)
     \<and> requests (streamChat B transport model messages
           (Some \<lparr>temperature = None, maxTokens = None, apiKey = Some (S ''   ''),
             tools = None, toolChoice = None, reasoningSplit = None\<rparr>) cancelled) = []
     \<and> (blankApiKey (Some \<lparr>temperature = None, maxTokens = None, apiKey = Some (S ''sk-1''),
           tools = None, toolChoice = None, reasoningSplit = None\<rparr>) = False)
     \<and> length (requests (streamChat B transport model messages
           (Some \<lparr>temperature = None, maxTokens = None, apiKey = Some (S ''sk-1''),
             tools = None, toolChoice = None, reasoningSplit = None\<rparr>) cancelled)) = 1"
proof -
  have a: "blankApiKey None"
    by (simp add: blankApiKey_def)
  have b: "blankApiKey (Some \<lparr>temperature = None, maxTokens = None, apiKey = Some (S ''   ''),
           tools = None, toolChoice = None, reasoningSplit = None\<rparr>)"
    by (simp add: blankApiKey_def trim_def S_def isWhiteSpace_def)
  have c: "\<not> blankApiKey (Some \<lparr>temperature = None, maxTokens = None, apiKey = Some (S ''sk-1''),
           tools = None, toolChoice = None, reasoningSplit = None\<rparr>)"
    by (simp add: blankApiKey_def trim_def S_def isWhiteSpace_def)
  show ?thesis
    using a b c
      streamChat_blank_key [of None]
      streamChat_blank_key [of "Some \<lparr>temperature = None, maxTokens = None, apiKey = Some (S ''   ''),
           tools = None, toolChoice = None, reasoningSplit = None\<rparr>"]
      streamChat_blank_key [of "Some \<lparr>temperature = None, maxTokens = None, apiKey = Some (S ''sk-1''),
           tools = None, toolChoice = None, reasoningSplit = None\<rparr>"]
    by simp
qed




text \<open>
  C10. For a structured (non-string) request message, \<open>provideTokenCount\<close> adds up the
  lengths of the text parts into a total \<open>N\<close> and returns the token estimate of the
  decimal string of \<open>N\<close>: the ceiling of (number of decimal digits of \<open>N\<close>) / 4, not of
  \<open>N / 4\<close>. A message whose text parts total 10000 characters gives 2 (not 2500), and one
  with no characters gives 1.
\<close>

theorem provideTokenCount_message_counts_digits:
  "provideTokenCount (MessageInput content) =
     nat \<lceil>real (decimal_digits (sum_list (map length (text_values content)))) / 4\<rceil>
   \<and> provideTokenCount (MessageInput [TextPart (replicate 6000 c), OtherPart v, TextPart (replicate 4000 c)]) = 2
   \<and> nat \<lceil>real (sum_list (map length (text_values [TextPart (replicate 6000 c), OtherPart v, TextPart (replicate 4000 c)]))) / 4\<rceil> = 2500
   \<and> provideTokenCount (MessageInput []) = 1
   \<and> provideTokenCount (MessageInput [TextPart [], ToolResultPart cid rs]) = 1"
proof -
  have dig: "decimal_digits n \<noteq> 0" for n
    using floorlog_eq_zero_iff [of 10 n] by (auto simp: decimal_digits_def)
  have ne: "String_of_nat n \<noteq> []" for n
    using dig [of n] length_String_of_nat [of n] by auto
  have gen: "provideTokenCount (MessageInput ps) =
      nat \<lceil>real (decimal_digits (sum_list (map length (text_values ps)))) / 4\<rceil>" for ps
    by (simp add: estimateTokens_def charsPerToken_def totalChars_loop_sum length_String_of_nat ne)
  have d5: "decimal_digits 10000 = 5" and d1: "decimal_digits 0 = 1"
    by (simp_all add: decimal_digits_def compute_floorlog)
  have big: "provideTokenCount (MessageInput [TextPart (replicate 6000 c), OtherPart v, TextPart (replicate 4000 c)]) = 2"
    by (subst gen) (simp add: d5)
  have naive: "nat \<lceil>real (sum_list (map length (text_values [TextPart (replicate 6000 c), OtherPart v, TextPart (replicate 4000 c)]))) / 4\<rceil> = 2500"
    by simp
  have "\<lceil>(1::real) / 4\<rceil> = 1"
    by (rule ceiling_unique) simp_all
  then have c1: "nat \<lceil>(1::real) / 4\<rceil> = 1"
    by simp
  have none: "provideTokenCount (MessageInput []) = 1"
    by (subst gen) (simp add: d1 c1)
  have empty: "provideTokenCount (MessageInput [TextPart [], ToolResultPart cid rs]) = 1"
    by (subst gen) (simp add: d1 c1)
  from gen big naive none empty show ?thesis
    by blast
qed

end
